theory Spec2Isabelle
  imports Complex_Main "HOL-Library.Sublist"
begin


section \<open>Python values, exceptions and formatting\<close>

text \<open>
  The bot is written twice: \<^verbatim>\<open>src/bot.py\<close> (BackgroundScheduler, synchronous jobs)
  and \<^verbatim>\<open>src/unnamed/part_000\<close> (AsyncIOScheduler, coroutine jobs). Both are embedded
  here, function by function, under the names the sources use.

  A decoded JSON body is a \<open>json\<close> value. Numbers are exact rationals: Python's floats are
  idealised (no rounding error, no infinities, no NaN), and JSON integers and floats are not
  told apart. A dict is the list of its items, keys distinct, as \<^verbatim>\<open>json.loads\<close> builds it.
  Text is a byte string in UTF-8: a glyph outside ASCII is the list of its bytes.
\<close>

datatype json =
    JNull
  | JBool bool
  | JNum rat
  | JStr string
  | JList "json list"
  | JObj "(string \<times> json) list"

datatype exn =
    AttributeError
  | TypeError
  | KeyError
  | ValueError
  | ZeroDivisionError
  | ClientError
  | TimeoutError
  | ContentTypeError
  | JSONDecodeError
  | InvalidToken
  | TelegramError

text \<open>What a call does: it raises an exception or returns a value.\<close>

datatype 'a result = Raised exn | Returned 'a

fun bind :: "'a result \<Rightarrow> ('a \<Rightarrow> 'b result) \<Rightarrow> 'b result" where
  "bind (Raised e) f = Raised e"
| "bind (Returned x) f = f x"

text \<open>Truth value testing: \<^verbatim>\<open>None\<close>, \<^verbatim>\<open>False\<close>, zero and empty containers are false.\<close>

fun truthy :: "json \<Rightarrow> bool" where
  "truthy JNull = False"
| "truthy (JBool b) = b"
| "truthy (JNum r) = (r \<noteq> 0)"
| "truthy (JStr s) = (s \<noteq> [])"
| "truthy (JList xs) = (xs \<noteq> [])"
| "truthy (JObj kvs) = (kvs \<noteq> [])"

text \<open>The numeric value of an operand; \<^verbatim>\<open>bool\<close> is a subclass of \<^verbatim>\<open>int\<close>.\<close>

fun num_of :: "json \<Rightarrow> rat option" where
  "num_of (JNum r) = Some r"
| "num_of (JBool b) = Some (if b then 1 else 0)"
| "num_of _ = None"

text \<open>\<^verbatim>\<open>k in v\<close> for a string \<open>k\<close>: key of a dict, element of a list, substring of a string.\<close>

fun py_in :: "string \<Rightarrow> json \<Rightarrow> bool result" where
  "py_in k (JObj kvs) = Returned (map_of kvs k \<noteq> None)"
| "py_in k (JList xs) = Returned (JStr k \<in> set xs)"
| "py_in k (JStr s) = Returned (sublist k s)"
| "py_in k _ = Raised TypeError"

text \<open>\<^verbatim>\<open>v[k]\<close> for a string \<open>k\<close>.\<close>

fun py_getitem :: "json \<Rightarrow> string \<Rightarrow> json result" where
  "py_getitem (JObj kvs) k = (case map_of kvs k of None \<Rightarrow> Raised KeyError | Some v \<Rightarrow> Returned v)"
| "py_getitem _ k = Raised TypeError"

text \<open>\<^verbatim>\<open>v.get(k, d)\<close>: only a dict has the method.\<close>

fun py_get :: "json \<Rightarrow> string \<Rightarrow> json \<Rightarrow> json result" where
  "py_get (JObj kvs) k d = Returned (case map_of kvs k of None \<Rightarrow> d | Some v \<Rightarrow> v)"
| "py_get _ k d = Raised AttributeError"

definition py_sub :: "json \<Rightarrow> json \<Rightarrow> rat result" where
  "py_sub a b =
     (case (num_of a, num_of b) of
        (Some x, Some y) \<Rightarrow> Returned (x - y)
      | _ \<Rightarrow> Raised TypeError)"

definition py_truediv :: "rat \<Rightarrow> json \<Rightarrow> rat result" where
  "py_truediv x b =
     (case num_of b of
        None \<Rightarrow> Raised TypeError
      | Some y \<Rightarrow> if y = 0 then Raised ZeroDivisionError else Returned (x / y))"

text \<open>\<^verbatim>\<open>v > 0\<close>: numbers compare, anything else against an int raises.\<close>

definition py_gt0 :: "json \<Rightarrow> bool result" where
  "py_gt0 v = (case num_of v of None \<Rightarrow> Raised TypeError | Some x \<Rightarrow> Returned (0 < x))"

subsection \<open>Formatting\<close>

fun digit :: "nat \<Rightarrow> char" where
  "digit n = ''0123456789'' ! (n mod 10)"

fun str_nat :: "nat \<Rightarrow> string" where
  "str_nat n = (if n < 10 then [digit n] else str_nat (n div 10) @ [digit n])"

declare str_nat.simps [simp del]

definition round_half_even :: "rat \<Rightarrow> int" where
  "round_half_even x =
     (let f = \<lfloor>x\<rfloor>; d = x - of_int f
      in if d < 1 / 2 then f else if 1 / 2 < d then f + 1 else if even f then f else f + 1)"

text \<open>
  \<^verbatim>\<open>f"{x:.2f}"\<close> for \<open>x \<ge> 0\<close>: the value rounded to hundredths (ties to even, on the exact
  value), written with two decimals.
\<close>

definition format_2f :: "rat \<Rightarrow> string" where
  "format_2f x =
     (let n = nat (round_half_even (x * 100))
      in str_nat (n div 100) @ ''.'' @ [digit (n div 10), digit n])"

text \<open>\<^verbatim>\<open>"%02d"\<close>, as \<^verbatim>\<open>strftime\<close> writes the hour and the minute.\<close>

definition two_digits :: "nat \<Rightarrow> string" where
  "two_digits n = [digit (n div 10), digit n]"

subsection \<open>Glyphs (UTF-8)\<close>

definition glyph_bullet :: string where
  "glyph_bullet = [CHR 0xE2, CHR 0x80, CHR 0xA2]"

definition glyph_dash :: string where
  "glyph_dash = [CHR 0xE2, CHR 0x80, CHR 0x94]"

definition glyph_up :: string where
  "glyph_up = [CHR 0xE2, CHR 0x96, CHR 0xB2]"

definition glyph_down :: string where
  "glyph_down = [CHR 0xE2, CHR 0x96, CHR 0xBC]"

definition glyph_chart_up :: string where
  "glyph_chart_up = [CHR 0xF0, CHR 0x9F, CHR 0x93, CHR 0x88]"

definition glyph_chart_down :: string where
  "glyph_chart_down = [CHR 0xF0, CHR 0x9F, CHR 0x93, CHR 0x89]"

definition glyph_bar_chart :: string where
  "glyph_bar_chart = [CHR 0xF0, CHR 0x9F, CHR 0x93, CHR 0x8A]"

definition glyph_clock :: string where
  "glyph_clock = [CHR 0xF0, CHR 0x9F, CHR 0x95, CHR 0x90]"

definition glyph_newspaper :: string where
  "glyph_newspaper = [CHR 0xF0, CHR 0x9F, CHR 0x93, CHR 0xB0]"

section \<open>Signal calculation\<close>

text \<open>
  The line both variants append for a symbol whose quote passed the guard
  (\<^verbatim>\<open>bot.py\<close> 105-107, \<^verbatim>\<open>part_000\<close> 136-140).
\<close>

definition signal_text :: "string \<Rightarrow> rat \<Rightarrow> string" where
  "signal_text symbol pct =
     (let emoji = (if 0 < pct then glyph_chart_up @ '' BULLISH''
                   else glyph_chart_down @ '' BEARISH'');
          arrow = (if 0 < pct then glyph_up else glyph_down)
      in glyph_bullet @ '' *'' @ symbol @ ''*: '' @ emoji @ '' '' @ arrow @ '' ''
         @ format_2f \<bar>pct\<bar> @ ''%'')"

text \<open>
  \<^verbatim>\<open>part_000\<close> 131-140, the body of the per-symbol \<^verbatim>\<open>try\<close> after the fetch:
  \<^verbatim>\<open>if quote and "c" in quote and "pc" in quote\<close>, then
  \<^verbatim>\<open>if prev_close and prev_close > 0\<close>. \<open>Returned None\<close> is a quote that adds no line.
\<close>

definition bullish_bearish_quote :: "string \<Rightarrow> json \<Rightarrow> string option result" where
  "bullish_bearish_quote symbol quote =
     (if \<not> truthy quote then Returned None
      else bind (py_in ''c'' quote) (\<lambda>has_c.
        if \<not> has_c then Returned None
        else bind (py_in ''pc'' quote) (\<lambda>has_pc.
          if \<not> has_pc then Returned None
          else bind (py_getitem quote ''c'') (\<lambda>current.
            bind (py_getitem quote ''pc'') (\<lambda>prev_close.
              if \<not> truthy prev_close then Returned None
              else bind (py_gt0 prev_close) (\<lambda>positive.
                if \<not> positive then Returned None
                else bind (py_sub current prev_close) (\<lambda>diff.
                  bind (py_truediv diff prev_close) (\<lambda>ratio.
                    Returned (Some (signal_text symbol (ratio * 100)))))))))))"

text \<open>
  \<^verbatim>\<open>bot.py\<close> 103-107: \<^verbatim>\<open>if q and q.get("c") and q.get("pc")\<close>; the guard is the truth
  value of the two fields, with no test of the sign.
\<close>

definition job_signals_quote :: "string \<Rightarrow> json \<Rightarrow> string option result" where
  "job_signals_quote symbol q =
     (if \<not> truthy q then Returned None
      else bind (py_get q ''c'' JNull) (\<lambda>c.
        if \<not> truthy c then Returned None
        else bind (py_get q ''pc'' JNull) (\<lambda>pc.
          if \<not> truthy pc then Returned None
          else bind (py_getitem q ''c'') (\<lambda>qc.
            bind (py_getitem q ''pc'') (\<lambda>qpc.
              bind (py_sub qc qpc) (\<lambda>diff.
                bind (py_getitem q ''pc'') (\<lambda>qpc2.
                  bind (py_truediv diff qpc2) (\<lambda>ratio.
                    Returned (Some (signal_text symbol (ratio * 100)))))))))))"

section \<open>Clock, time zones and the outside world\<close>

datatype zone = TZ_NY | TZ_LONDON | TZ_TOKYO | TZ_UTC

text \<open>
  An instant is a number of seconds since 1970-01-01 00:00 UTC. The time-zone database
  (\<^verbatim>\<open>pytz\<close>) is a parameter: the UTC offset, in seconds, and the abbreviation that a
  zone has at an instant. \<^verbatim>\<open>pytz.utc\<close> has offset 0 and the name UTC.
\<close>

record tzdata =
  utc_offset :: "zone \<Rightarrow> int \<Rightarrow> int"
  tz_abbrev :: "zone \<Rightarrow> int \<Rightarrow> string"

definition utcoffset :: "tzdata \<Rightarrow> zone \<Rightarrow> int \<Rightarrow> int" where
  "utcoffset db z t = (if z = TZ_UTC then 0 else utc_offset db z t)"

definition tzname_of :: "tzdata \<Rightarrow> zone \<Rightarrow> int \<Rightarrow> string" where
  "tzname_of db z t = (if z = TZ_UTC then ''UTC'' else tz_abbrev db z t)"

text \<open>
  The proleptic Gregorian date of a day number (days since 1970-01-01), as
  \<^verbatim>\<open>datetime\<close> computes it: year, month, day of the month.
\<close>

definition civil_from_days :: "int \<Rightarrow> int \<times> nat \<times> nat" where
  "civil_from_days n =
     (let z = n + 719468;
          era = z div 146097;
          doe = z mod 146097;
          yoe = (doe - doe div 1460 + doe div 36524 - doe div 146096) div 365;
          doy = doe - (365 * yoe + yoe div 4 - yoe div 100);
          mp = (5 * doy + 2) div 153;
          d = doy - (153 * mp + 2) div 5 + 1;
          m = (if mp < 10 then mp + 3 else mp - 9);
          y = yoe + era * 400 + (if m \<le> 2 then 1 else 0)
      in (y, nat m, nat d))"

text \<open>
  The fields of an aware \<^verbatim>\<open>datetime\<close> the code reads or prints: the date,
  \<^verbatim>\<open>weekday()\<close> (Monday is 0; 1970-01-01 was a Thursday), \<^verbatim>\<open>hour\<close>, \<^verbatim>\<open>minute\<close> and the
  zone's abbreviation.
\<close>

record local_time =
  year :: int
  month :: nat
  day :: nat
  weekday :: nat
  hour :: nat
  minute :: nat
  tzname :: string

definition astimezone :: "tzdata \<Rightarrow> zone \<Rightarrow> int \<Rightarrow> local_time" where
  "astimezone db z t =
     (let s = t + utcoffset db z t;
          date = civil_from_days (s div 86400)
      in \<lparr>year = fst date, month = fst (snd date), day = snd (snd date),
          weekday = nat ((s div 86400 + 3) mod 7),
          hour = nat (s mod 86400 div 3600),
          minute = nat (s mod 3600 div 60),
          tzname = tzname_of db z t\<rparr>)"

text \<open>\<^verbatim>\<open>strftime\<close> with the formats the code uses.\<close>

definition strftime_HM :: "local_time \<Rightarrow> string" where
  "strftime_HM l = two_digits (hour l) @ '':'' @ two_digits (minute l)"

definition strftime_HM_Z :: "local_time \<Rightarrow> string" where
  "strftime_HM_Z l = strftime_HM l @ '' '' @ tzname l"

definition strftime_A :: "local_time \<Rightarrow> string" where
  "strftime_A l =
     [''Monday'', ''Tuesday'', ''Wednesday'', ''Thursday'', ''Friday'', ''Saturday'', ''Sunday'']
     ! (weekday l mod 7)"

definition strftime_B :: "local_time \<Rightarrow> string" where
  "strftime_B l =
     [''January'', ''February'', ''March'', ''April'', ''May'', ''June'', ''July'', ''August'',
      ''September'', ''October'', ''November'', ''December''] ! ((month l - 1) mod 12)"

text \<open>\<^verbatim>\<open>strftime('%A, %B %d %Y')\<close>.\<close>

definition strftime_date :: "local_time \<Rightarrow> string" where
  "strftime_date l =
     strftime_A l @ '', '' @ strftime_B l @ '' '' @ two_digits (day l) @ '' ''
     @ str_nat (nat (year l))"

record config =
  TELEGRAM_TOKEN :: string
  FINNHUB_API_KEY :: string
  CHANNEL_ID :: string

text \<open>
  A request as \<^verbatim>\<open>session.get\<close> receives it: the URL and the total timeout in seconds
  (\<^verbatim>\<open>aiohttp.ClientTimeout(total=10)\<close>), \<open>None\<close> when the call passes none.
\<close>

record request =
  url :: string
  timeout :: "nat option"

text \<open>
  What the provider and the network do with a request: \<^verbatim>\<open>session.get\<close> raises
  (connection error, timeout), or a response arrives with its status and with what
  \<^verbatim>\<open>r.json()\<close> will do on its body (raise, or return the decoded value).
\<close>

datatype http_reply = Failed exn | Reply nat "json result"

text \<open>
  The world a job runs in: the provider, the messaging service
  (\<^verbatim>\<open>bot.send_message(chat_id, text)\<close>: \<open>None\<close> is a delivery, \<open>Some e\<close> the exception
  raised), \<^verbatim>\<open>str()\<close> of a value that is not a string, the clock (\<^verbatim>\<open>datetime.now\<close>, held
  fixed while a job runs) and the zone database.
\<close>

record world =
  http :: "request \<Rightarrow> http_reply"
  telegram :: "string \<Rightarrow> string \<Rightarrow> exn option"
  str_other :: "json \<Rightarrow> string"
  now :: int
  tz_database :: tzdata

text \<open>What a job does to the outside, in order.\<close>

datatype event =
    Http_get request
  | Bot_send string string
  | Log_info string string
  | Log_error string exn

type_synonym 'a io = "'a result \<times> event list"

definition io_return :: "'a \<Rightarrow> 'a io" where
  "io_return x = (Returned x, [])"

definition io_lift :: "'a result \<Rightarrow> 'a io" where
  "io_lift r = (r, [])"

definition io_bind :: "'a io \<Rightarrow> ('a \<Rightarrow> 'b io) \<Rightarrow> 'b io" where
  "io_bind m f =
     (case m of
        (Raised e, tr) \<Rightarrow> (Raised e, tr)
      | (Returned x, tr) \<Rightarrow> (case f x of (r, tr') \<Rightarrow> (r, tr @ tr')))"

text \<open>\<^verbatim>\<open>try: m  except Exception as e: h(e)\<close>.\<close>

definition try_except :: "'a io \<Rightarrow> (exn \<Rightarrow> 'a io) \<Rightarrow> 'a io" where
  "try_except m h =
     (case m of
        (Raised e, tr) \<Rightarrow> (case h e of (r, tr') \<Rightarrow> (r, tr @ tr'))
      | (Returned x, tr) \<Rightarrow> (Returned x, tr))"

definition logger_error :: "string \<Rightarrow> exn \<Rightarrow> unit io" where
  "logger_error what e = (Returned (), [Log_error what e])"

definition session_get :: "world \<Rightarrow> request \<Rightarrow> (nat \<times> json result) io" where
  "session_get w rq =
     (case http w rq of
        Failed e \<Rightarrow> (Raised e, [Http_get rq])
      | Reply st body \<Rightarrow> (Returned (st, body), [Http_get rq]))"

text \<open>\<^verbatim>\<open>await r.json()\<close>: the status is not looked at.\<close>

definition resp_json :: "nat \<times> json result \<Rightarrow> json io" where
  "resp_json r = io_lift (snd r)"

definition quote_url :: "config \<Rightarrow> string \<Rightarrow> string" where
  "quote_url cfg symbol =
     ''https://finnhub.io/api/v1/quote?symbol='' @ symbol @ ''&token='' @ FINNHUB_API_KEY cfg"

definition news_url :: "config \<Rightarrow> string" where
  "news_url cfg = ''https://finnhub.io/api/v1/news?category=general&token='' @ FINNHUB_API_KEY cfg"

section \<open>Dispatcher\<close>

text \<open>
  \<^verbatim>\<open>part_000\<close> 60-69, \<^verbatim>\<open>send_message\<close>. The function has no \<^verbatim>\<open>return\<close>: it returns
  \<^verbatim>\<open>None\<close> after the log line of either branch.
\<close>

definition send_message :: "config \<Rightarrow> world \<Rightarrow> string \<Rightarrow> unit io" where
  "send_message cfg w text =
     try_except
       (io_bind
          (case telegram w (CHANNEL_ID cfg) text of
             None \<Rightarrow> (Returned (), [Bot_send (CHANNEL_ID cfg) text])
           | Some e \<Rightarrow> (Raised e, [Bot_send (CHANNEL_ID cfg) text]))
          (\<lambda>_. (Returned (), [Log_info ''Sent'' text])))
       (\<lambda>e. logger_error ''Failed to send message'' e)"

text \<open>\<^verbatim>\<open>bot.py\<close> 47-56, \<^verbatim>\<open>send\<close>: the same through the global \<^verbatim>\<open>_bot\<close> and an event loop.\<close>

definition send :: "config \<Rightarrow> world \<Rightarrow> string \<Rightarrow> unit io" where
  "send cfg w text =
     try_except
       (io_bind
          (case telegram w (CHANNEL_ID cfg) text of
             None \<Rightarrow> (Returned (), [Bot_send (CHANNEL_ID cfg) text])
           | Some e \<Rightarrow> (Raised e, [Bot_send (CHANNEL_ID cfg) text]))
          (\<lambda>_. (Returned (), [Log_info ''Sent'' text])))
       (\<lambda>e. logger_error ''Send error'' e)"

section \<open>Signal job\<close>

fun py_join :: "string \<Rightarrow> string list \<Rightarrow> string" where
  "py_join sep [] = []"
| "py_join sep [x] = x"
| "py_join sep (x # y # ys) = x @ sep @ py_join sep (y # ys)"

text \<open>
  The message of the signal digest, the same text in \<^verbatim>\<open>bot.py\<close> 117-120 and
  \<^verbatim>\<open>part_000\<close> 146-149; the time is \<^verbatim>\<open>datetime.now(TZ_NY).strftime('%H:%M EST')\<close>.
\<close>

definition signal_message :: "world \<Rightarrow> string list \<Rightarrow> string" where
  "signal_message w results =
     glyph_bar_chart @ '' *AZZAM & Co '' @ glyph_dash @ '' Market Signal Update*'' @ [CHR 0x0A]
     @ glyph_clock @ '' '' @ strftime_HM (astimezone (tz_database w) TZ_NY (now w)) @ '' EST''
     @ [CHR 0x0A, CHR 0x0A]
     @ py_join [CHR 0x0A] results
     @ [CHR 0x0A, CHR 0x0A] @ ''_Based on latest price vs previous close._''"

subsection \<open>\<^verbatim>\<open>part_000\<close>: \<^verbatim>\<open>fetch_quote\<close>, \<^verbatim>\<open>bullish_bearish_signal\<close>\<close>

definition fetch_quote :: "config \<Rightarrow> world \<Rightarrow> string \<Rightarrow> json io" where
  "fetch_quote cfg w symbol =
     io_bind (session_get w \<lparr>url = quote_url cfg symbol, timeout = None\<rparr>) resp_json"

text \<open>One round of the loop: the \<^verbatim>\<open>try\<close> body, and \<^verbatim>\<open>except Exception: continue\<close>.\<close>

definition bullish_bearish_symbol :: "config \<Rightarrow> world \<Rightarrow> string \<Rightarrow> string option io" where
  "bullish_bearish_symbol cfg w symbol =
     try_except
       (io_bind (fetch_quote cfg w symbol) (\<lambda>quote. io_lift (bullish_bearish_quote symbol quote)))
       (\<lambda>e. io_return None)"

fun bullish_bearish_loop :: "config \<Rightarrow> world \<Rightarrow> string list \<Rightarrow> string list \<Rightarrow> string list io" where
  "bullish_bearish_loop cfg w [] results = io_return results"
| "bullish_bearish_loop cfg w (symbol # rest) results =
     io_bind (bullish_bearish_symbol cfg w symbol) (\<lambda>line.
       bullish_bearish_loop cfg w rest
         (case line of None \<Rightarrow> results | Some l \<Rightarrow> results @ [l]))"

definition bullish_bearish_signal :: "config \<Rightarrow> world \<Rightarrow> unit io" where
  "bullish_bearish_signal cfg w =
     try_except
       (io_bind (bullish_bearish_loop cfg w [''SPY'', ''QQQ'', ''EURUSD''] []) (\<lambda>results.
          if results \<noteq> [] then send_message cfg w (signal_message w results)
          else io_return ()))
       (\<lambda>e. logger_error ''Signal error'' e)"

subsection \<open>\<^verbatim>\<open>bot.py\<close>: \<^verbatim>\<open>job_signals\<close>\<close>

definition job_signals_symbol :: "config \<Rightarrow> world \<Rightarrow> string \<Rightarrow> string option io" where
  "job_signals_symbol cfg w symbol =
     try_except
       (io_bind (session_get w \<lparr>url = quote_url cfg symbol, timeout = Some 10\<rparr>) (\<lambda>r.
          io_bind (resp_json r) (\<lambda>q. io_lift (job_signals_quote symbol q))))
       (\<lambda>e. io_return None)"

fun job_signals_fetch :: "config \<Rightarrow> world \<Rightarrow> string list \<Rightarrow> string list \<Rightarrow> string list io" where
  "job_signals_fetch cfg w [] results = io_return results"
| "job_signals_fetch cfg w (symbol # rest) results =
     io_bind (job_signals_symbol cfg w symbol) (\<lambda>line.
       job_signals_fetch cfg w rest
         (case line of None \<Rightarrow> results | Some l \<Rightarrow> results @ [l]))"

definition job_signals :: "config \<Rightarrow> world \<Rightarrow> unit io" where
  "job_signals cfg w =
     try_except
       (io_bind (job_signals_fetch cfg w [''SPY'', ''QQQ'', ''EURUSD''] []) (\<lambda>results.
          if results \<noteq> [] then send cfg w (signal_message w results)
          else io_return ()))
       (\<lambda>e. logger_error ''Signals error'' e)"

section \<open>News job\<close>

text \<open>\<^verbatim>\<open>f"{v}"\<close>: a string as it is, any other value through \<^verbatim>\<open>str()\<close>.\<close>

definition py_format :: "world \<Rightarrow> json \<Rightarrow> string" where
  "py_format w v = (case v of JStr s \<Rightarrow> s | _ \<Rightarrow> str_other w v)"

definition news_header :: string where
  "news_header =
     glyph_newspaper @ '' *AZZAM & Co '' @ glyph_dash @ '' Breaking Financial News*''
     @ [CHR 0x0A, CHR 0x0A]"

text \<open>
  The entry of one item (\<^verbatim>\<open>bot.py\<close> 143, \<^verbatim>\<open>part_000\<close> 169): a bullet, the headline, a
  newline, two spaces, an underscore, a dash, the source, an underscore, two newlines.
\<close>

definition news_entry :: "world \<Rightarrow> json \<Rightarrow> json \<Rightarrow> string" where
  "news_entry w h s =
     glyph_bullet @ '' '' @ py_format w h @ [CHR 0x0A] @ ''  _'' @ glyph_dash @ '' ''
     @ py_format w s @ ''_'' @ [CHR 0x0A, CHR 0x0A]"

text \<open>\<^verbatim>\<open>data[:n] if isinstance(data, list) else []\<close>.\<close>

definition first_if_list :: "nat \<Rightarrow> json \<Rightarrow> json list" where
  "first_if_list n data = (case data of JList xs \<Rightarrow> take n xs | _ \<Rightarrow> [])"

subsection \<open>\<^verbatim>\<open>bot.py\<close>: \<^verbatim>\<open>job_news\<close>\<close>

definition job_news_fetch :: "config \<Rightarrow> world \<Rightarrow> json list io" where
  "job_news_fetch cfg w =
     io_bind (session_get w \<lparr>url = news_url cfg, timeout = Some 10\<rparr>) (\<lambda>r.
       io_bind (resp_json r) (\<lambda>data. io_return (first_if_list 4 data)))"

fun job_news_loop :: "world \<Rightarrow> json list \<Rightarrow> string \<Rightarrow> string result" where
  "job_news_loop w [] msg = Returned msg"
| "job_news_loop w (item # rest) msg =
     bind (py_get item ''headline'' (JStr [])) (\<lambda>h.
       bind (py_get item ''source'' (JStr [])) (\<lambda>s.
         job_news_loop w rest (if truthy h then msg @ news_entry w h s else msg)))"

definition job_news :: "config \<Rightarrow> world \<Rightarrow> unit io" where
  "job_news cfg w =
     try_except
       (io_bind (job_news_fetch cfg w) (\<lambda>news.
          if news \<noteq> [] then
            io_bind (io_lift (job_news_loop w news news_header)) (\<lambda>msg. send cfg w msg)
          else io_return ()))
       (\<lambda>e. logger_error ''News error'' e)"

subsection \<open>\<^verbatim>\<open>part_000\<close>: \<^verbatim>\<open>fetch_news\<close>, \<^verbatim>\<open>breaking_news\<close>\<close>

definition fetch_news :: "config \<Rightarrow> world \<Rightarrow> json list io" where
  "fetch_news cfg w =
     io_bind (session_get w \<lparr>url = news_url cfg, timeout = None\<rparr>) (\<lambda>r.
       io_bind (resp_json r) (\<lambda>data. io_return (first_if_list 5 data)))"

fun breaking_news_loop :: "world \<Rightarrow> json list \<Rightarrow> string \<Rightarrow> string result" where
  "breaking_news_loop w [] msg = Returned msg"
| "breaking_news_loop w (item # rest) msg =
     bind (py_get item ''headline'' (JStr [])) (\<lambda>headline.
       bind (py_get item ''source'' (JStr [])) (\<lambda>source.
         bind (py_get item ''url'' (JStr [])) (\<lambda>url.
           breaking_news_loop w rest
             (if truthy headline then msg @ news_entry w headline source else msg))))"

definition breaking_news :: "config \<Rightarrow> world \<Rightarrow> unit io" where
  "breaking_news cfg w =
     try_except
       (io_bind (fetch_news cfg w) (\<lambda>news.
          if \<not> (news \<noteq> []) then io_return ()
          else io_bind (io_lift (breaking_news_loop w (take 4 news) news_header))
                 (\<lambda>msg. send_message cfg w msg)))
       (\<lambda>e. logger_error ''News error'' e)"

section \<open>Market registry\<close>

record market =
  m_name :: string
  m_open :: string
  m_close :: string
  m_tz :: zone
  m_flag :: string

text \<open>\<^verbatim>\<open>MARKETS\<close>, the same table in both files (\<^verbatim>\<open>bot.py\<close> 28-32, \<^verbatim>\<open>part_000\<close> 31-53).\<close>

definition MARKETS :: "(string \<times> market) list" where
  "MARKETS =
     [(''tokyo'',
       \<lparr>m_name = [CHR 0xF0, CHR 0x9F, CHR 0x87, CHR 0xAF, CHR 0xF0, CHR 0x9F, CHR 0x87, CHR 0xB5]
            @ '' Tokyo (Asia)'',
        m_open = ''09:00'', m_close = ''15:30'', m_tz = TZ_TOKYO,
        m_flag = [CHR 0xF0, CHR 0x9F, CHR 0x8C, CHR 0x8F]\<rparr>),
      (''london'',
       \<lparr>m_name = [CHR 0xF0, CHR 0x9F, CHR 0x87, CHR 0xAC, CHR 0xF0, CHR 0x9F, CHR 0x87, CHR 0xA7]
            @ '' London'',
        m_open = ''08:00'', m_close = ''16:30'', m_tz = TZ_LONDON,
        m_flag = [CHR 0xF0, CHR 0x9F, CHR 0x8C, CHR 0x8D]\<rparr>),
      (''newyork'',
       \<lparr>m_name = [CHR 0xF0, CHR 0x9F, CHR 0x87, CHR 0xBA, CHR 0xF0, CHR 0x9F, CHR 0x87, CHR 0xB8]
            @ '' New York (NYSE/NASDAQ)'',
        m_open = ''09:30'', m_close = ''16:00'', m_tz = TZ_NY,
        m_flag = [CHR 0xF0, CHR 0x9F, CHR 0x8C, CHR 0x8E]\<rparr>)]"

text \<open>\<^verbatim>\<open>MARKETS[market_key]\<close>.\<close>

definition market_of :: "string \<Rightarrow> market result" where
  "market_of market_key =
     (case map_of MARKETS market_key of None \<Rightarrow> Raised KeyError | Some m \<Rightarrow> Returned m)"

section \<open>Session clock\<close>

text \<open>\<^verbatim>\<open>s.split(":")\<close>.\<close>

fun split_colon :: "string \<Rightarrow> string list" where
  "split_colon [] = [[]]"
| "split_colon (c # cs) =
     (if c = CHR '':'' then [] # split_colon cs
      else (case split_colon cs of [] \<Rightarrow> [[c]] | p # ps \<Rightarrow> (c # p) # ps))"

text \<open>
  \<^verbatim>\<open>int(s)\<close> on a string of decimal digits. The other forms \<^verbatim>\<open>int\<close> accepts (a sign,
  surrounding whitespace, underscores between digits) are not in the table and are left
  out: they are a \<open>ValueError\<close> here.
\<close>

definition is_digit :: "char \<Rightarrow> bool" where
  "is_digit c = (c \<in> set ''0123456789'')"

definition digit_value :: "char \<Rightarrow> int" where
  "digit_value c = int (length (takeWhile (\<lambda>d. d \<noteq> c) ''0123456789''))"

definition py_int :: "string \<Rightarrow> int result" where
  "py_int s =
     (if s \<noteq> [] \<and> list_all is_digit s
      then Returned (foldl (\<lambda>n c. 10 * n + digit_value c) 0 s)
      else Raised ValueError)"

text \<open>\<^verbatim>\<open>h, m = map(int, s.split(":"))\<close>: anything but two parts cannot be unpacked.\<close>

definition parse_hm :: "string \<Rightarrow> (int \<times> int) result" where
  "parse_hm s =
     (case split_colon s of
        [a, b] \<Rightarrow> bind (py_int a) (\<lambda>h. bind (py_int b) (\<lambda>m. Returned (h, m)))
      | _ \<Rightarrow> Raised ValueError)"

text \<open>
  The session check of the status command, the same expression in \<^verbatim>\<open>bot.py\<close> 187-194
  (\<^verbatim>\<open>cmd_status\<close>) and \<^verbatim>\<open>part_000\<close> 219-226 (\<^verbatim>\<open>status\<close>).
\<close>

definition is_open :: "tzdata \<Rightarrow> market \<Rightarrow> int \<Rightarrow> bool result" where
  "is_open db m now_utc =
     (let local = astimezone db (m_tz m) now_utc
      in bind (parse_hm (m_open m)) (\<lambda>opening.
           bind (parse_hm (m_close m)) (\<lambda>closing.
             Returned
               (weekday local < 5
                \<and> (fst opening < int (hour local)
                   \<or> (int (hour local) = fst opening \<and> snd opening \<le> int (minute local)))
                \<and> (int (hour local) < fst closing
                   \<or> (int (hour local) = fst closing \<and> int (minute local) < snd closing))))))"

definition glyph_green :: string where
  "glyph_green = [CHR 0xF0, CHR 0x9F, CHR 0x9F, CHR 0xA2]"

definition glyph_red :: string where
  "glyph_red = [CHR 0xF0, CHR 0x9F, CHR 0x94, CHR 0xB4]"

text \<open>The text of the status reply: a header and two lines per market, in table order.\<close>

fun status_loop :: "world \<Rightarrow> (string \<times> market) list \<Rightarrow> string \<Rightarrow> string result" where
  "status_loop w [] msg = Returned msg"
| "status_loop w ((key, m) # rest) msg =
     bind (is_open (tz_database w) m (now w)) (\<lambda>opened.
       status_loop w rest
         (msg @ m_flag m @ '' *'' @ m_name m @ ''*: ''
          @ (if opened then glyph_green @ '' OPEN'' else glyph_red @ '' CLOSED'') @ [CHR 0x0A]
          @ ''   Local: '' @ strftime_HM_Z (astimezone (tz_database w) (m_tz m) (now w))
          @ [CHR 0x0A, CHR 0x0A]))"

definition status :: "world \<Rightarrow> string result" where
  "status w =
     status_loop w MARKETS (glyph_bar_chart @ '' *Current Market Status*'' @ [CHR 0x0A, CHR 0x0A])"

section \<open>The other scheduled jobs\<close>

text \<open>
  The texts are the same in both files; a job of \<^verbatim>\<open>bot.py\<close> hands its text to
  \<^verbatim>\<open>send\<close>, a job of \<^verbatim>\<open>part_000\<close> to \<^verbatim>\<open>send_message\<close>.
\<close>

definition good_morning_text :: "world \<Rightarrow> string" where
  "good_morning_text w =
     [CHR 0xF0, CHR 0x9F, CHR 0x8C, CHR 0x85] @ '' *Good Morning '' @ [CHR 0xE2, CHR 0x80, CHR 0x94]
     @ '' AZZAM & Co Team!*'' @ [CHR 0x0A, CHR 0x0A, CHR 0xF0, CHR 0x9F, CHR 0x93, CHR 0x85] @ '' ''
     @ strftime_date (astimezone (tz_database w) TZ_NY (now w))
     @ [CHR 0x0A, CHR 0x0A] @ ''Today'' @ [CHR 0x27] @ ''s market sessions:''
     @ [CHR 0x0A, CHR 0xF0, CHR 0x9F, CHR 0x8C, CHR 0x8F] @ '' Tokyo:    09:00 ''
     @ [CHR 0xE2, CHR 0x80, CHR 0x93] @ '' 15:30 JST''
     @ [CHR 0x0A, CHR 0xF0, CHR 0x9F, CHR 0x8C, CHR 0x8D] @ '' London:   08:00 ''
     @ [CHR 0xE2, CHR 0x80, CHR 0x93] @ '' 16:30 GMT''
     @ [CHR 0x0A, CHR 0xF0, CHR 0x9F, CHR 0x8C, CHR 0x8E] @ '' New York: 09:30 ''
     @ [CHR 0xE2, CHR 0x80, CHR 0x93] @ '' 16:00 EST'' @ [CHR 0x0A, CHR 0x0A]
     @ ''Stay focused, trade smart. Let'' @ [CHR 0x27] @ ''s have a great day! ''
     @ [CHR 0xF0, CHR 0x9F, CHR 0x92, CHR 0xBC, CHR 0xF0, CHR 0x9F, CHR 0x93, CHR 0x88]"

definition market_open_text :: "world \<Rightarrow> market \<Rightarrow> string" where
  "market_open_text w m =
     m_flag m @ '' *MARKET OPEN '' @ [CHR 0xE2, CHR 0x80, CHR 0x94] @ '' '' @ m_name m
     @ ''*'' @ [CHR 0x0A, CHR 0x0A] @ glyph_green @ '' The '' @ m_name m
     @ '' session has just opened!'' @ [CHR 0x0A] @ glyph_clock @ '' Local time: ''
     @ strftime_HM_Z (astimezone (tz_database w) (m_tz m) (now w))
     @ [CHR 0x0A, CHR 0x0A] @ ''Watch for early momentum and liquidity. Good luck traders! ''
     @ glyph_bar_chart"

definition market_close_text :: "world \<Rightarrow> market \<Rightarrow> string" where
  "market_close_text w m =
     m_flag m @ '' *MARKET CLOSE '' @ [CHR 0xE2, CHR 0x80, CHR 0x94] @ '' '' @ m_name m
     @ ''*'' @ [CHR 0x0A, CHR 0x0A] @ glyph_red @ '' The '' @ m_name m
     @ '' session has closed.'' @ [CHR 0x0A] @ glyph_clock @ '' Local time: ''
     @ strftime_HM_Z (astimezone (tz_database w) (m_tz m) (now w))
     @ [CHR 0x0A, CHR 0x0A] @ ''Review your trades and prepare for the next session. ''
     @ [CHR 0xF0, CHR 0x9F, CHR 0x93, CHR 0x8B]"

definition events :: "(string \<times> string) list" where
  "events =
     [(''Monday'', glyph_bullet @ '' USD: Fed Member Speeches'' @ [CHR 0x0A] @ glyph_bullet
         @ '' EUR: Eurozone Sentix Index''),
      (''Tuesday'', glyph_bullet @ '' USD: Consumer Confidence'' @ [CHR 0x0A] @ glyph_bullet
         @ '' GBP: UK Claimant Count''),
      (''Wednesday'', glyph_bullet @ '' USD: ADP Employment + Fed Minutes'' @ [CHR 0x0A]
         @ glyph_bullet @ '' EUR: CPI Flash Estimate''),
      (''Thursday'', glyph_bullet @ '' USD: Initial Jobless Claims'' @ [CHR 0x0A] @ glyph_bullet
         @ '' EUR: ECB Meeting (if scheduled)''),
      (''Friday'', glyph_bullet @ '' USD: Non-Farm Payrolls (NFP) ''
         @ [CHR 0xF0, CHR 0x9F, CHR 0x94, CHR 0xA5, CHR 0x0A] @ glyph_bullet
         @ '' USD: Unemployment Rate'')]"

definition events_text :: "string \<Rightarrow> string \<Rightarrow> string" where
  "events_text day_name body =
     [CHR 0xE2, CHR 0x9A, CHR 0xA0, CHR 0xEF, CHR 0xB8, CHR 0x8F] @ '' *High Impact Events Today ''
     @ [CHR 0xE2, CHR 0x80, CHR 0x94] @ '' '' @ day_name @ ''*'' @ [CHR 0x0A, CHR 0x0A] @ body
     @ [CHR 0x0A, CHR 0x0A] @ ''_Stay alert '' @ [CHR 0xE2, CHR 0x80, CHR 0x94]
     @ '' these can cause high volatility!_ ''
     @ [CHR 0xF0, CHR 0x9F, CHR 0x93, CHR 0x89, CHR 0xF0, CHR 0x9F, CHR 0x93, CHR 0x88]"

subsection \<open>\<^verbatim>\<open>bot.py\<close>\<close>

definition job_good_morning :: "config \<Rightarrow> world \<Rightarrow> unit io" where
  "job_good_morning cfg w = send cfg w (good_morning_text w)"

definition job_market_open :: "config \<Rightarrow> world \<Rightarrow> string \<Rightarrow> unit io" where
  "job_market_open cfg w market_key =
     io_bind (io_lift (market_of market_key)) (\<lambda>m. send cfg w (market_open_text w m))"

definition job_market_close :: "config \<Rightarrow> world \<Rightarrow> string \<Rightarrow> unit io" where
  "job_market_close cfg w market_key =
     io_bind (io_lift (market_of market_key)) (\<lambda>m. send cfg w (market_close_text w m))"

definition job_events :: "config \<Rightarrow> world \<Rightarrow> unit io" where
  "job_events cfg w =
     (let day_name = strftime_A (astimezone (tz_database w) TZ_NY (now w))
      in case map_of events day_name of
           Some body \<Rightarrow> send cfg w (events_text day_name body)
         | None \<Rightarrow> io_return ())"

subsection \<open>\<^verbatim>\<open>part_000\<close>\<close>

definition good_morning :: "config \<Rightarrow> world \<Rightarrow> unit io" where
  "good_morning cfg w = send_message cfg w (good_morning_text w)"

definition market_open_alert :: "config \<Rightarrow> world \<Rightarrow> string \<Rightarrow> unit io" where
  "market_open_alert cfg w market_key =
     io_bind (io_lift (market_of market_key)) (\<lambda>m. send_message cfg w (market_open_text w m))"

definition market_close_alert :: "config \<Rightarrow> world \<Rightarrow> string \<Rightarrow> unit io" where
  "market_close_alert cfg w market_key =
     io_bind (io_lift (market_of market_key)) (\<lambda>m. send_message cfg w (market_close_text w m))"

definition high_impact_events :: "config \<Rightarrow> world \<Rightarrow> unit io" where
  "high_impact_events cfg w =
     (let day_name = strftime_A (astimezone (tz_database w) TZ_NY (now w))
      in case map_of events day_name of
           Some body \<Rightarrow> send_message cfg w (events_text day_name body)
         | None \<Rightarrow> io_return ())"

section \<open>Scheduler\<close>

datatype job =
    Good_morning
  | Market_open string
  | Market_close string
  | Signals
  | News
  | Events

text \<open>
  A cron trigger of APScheduler as \<^verbatim>\<open>add_job(f, "cron", hour=..., minute=...,
  day_of_week=..., timezone=...)\<close> builds it: the hours, the minute, the weekdays when a
  filter is given (\<^verbatim>\<open>"mon-fri"\<close> is 0 to 4) and the zone the fields are read in, which is
  the scheduler's own zone when the call names none. Its second is 0. The trigger fires at
  the instants whose wall-clock time in that zone matches every field.
\<close>

record trigger =
  t_hours :: "nat list"
  t_minute :: nat
  t_day_of_week :: "nat list option"
  t_zone :: zone

definition cron :: "nat list \<Rightarrow> nat \<Rightarrow> nat list option \<Rightarrow> zone \<Rightarrow> trigger" where
  "cron hs m dow z = \<lparr>t_hours = hs, t_minute = m, t_day_of_week = dow, t_zone = z\<rparr>"

definition mon_fri :: "nat list" where
  "mon_fri = [0, 1, 2, 3, 4]"

definition fires :: "tzdata \<Rightarrow> trigger \<Rightarrow> int \<Rightarrow> bool" where
  "fires db trig t =
     (let l = astimezone db (t_zone trig) t
      in t mod 60 = 0 \<and> hour l \<in> set (t_hours trig) \<and> minute l = t_minute trig
         \<and> (case t_day_of_week trig of None \<Rightarrow> True | Some ds \<Rightarrow> weekday l \<in> set ds))"

text \<open>The jobs of a table that are due at an instant, in table order.\<close>

definition due :: "tzdata \<Rightarrow> (job \<times> trigger) list \<Rightarrow> int \<Rightarrow> job list" where
  "due db table t = map fst (filter (\<lambda>entry. fires db (snd entry) t) table)"

text \<open>
  \<^verbatim>\<open>bot.py\<close> 213-237: \<^verbatim>\<open>BackgroundScheduler(timezone=TZ_UTC)\<close> and the ten
  \<^verbatim>\<open>add_job\<close> calls of \<^verbatim>\<open>main\<close>, none of which names a zone.
\<close>

definition main_jobs :: "(job \<times> trigger) list" where
  "main_jobs =
     [(Good_morning, cron [11] 0 None TZ_UTC),
      (Market_open ''tokyo'', cron [0] 0 None TZ_UTC),
      (Market_close ''tokyo'', cron [6] 30 None TZ_UTC),
      (Market_open ''london'', cron [8] 0 None TZ_UTC),
      (Market_close ''london'', cron [16] 30 None TZ_UTC),
      (Market_open ''newyork'', cron [14] 30 None TZ_UTC),
      (Market_close ''newyork'', cron [21] 0 None TZ_UTC),
      (Signals, cron [15, 17, 19, 21] 0 None TZ_UTC),
      (News, cron [8, 11, 14, 17] 0 None TZ_UTC),
      (Events, cron [13] 0 (Some mon_fri) TZ_UTC)]"

text \<open>\<^verbatim>\<open>part_000\<close> 235-263, \<^verbatim>\<open>setup_scheduler\<close>: every call names its zone.\<close>

definition setup_scheduler :: "(job \<times> trigger) list" where
  "setup_scheduler =
     [(Good_morning, cron [6] 0 None TZ_NY),
      (Market_open ''tokyo'', cron [9] 0 None TZ_TOKYO),
      (Market_close ''tokyo'', cron [15] 30 None TZ_TOKYO),
      (Market_open ''london'', cron [8] 0 None TZ_LONDON),
      (Market_close ''london'', cron [16] 30 None TZ_LONDON),
      (Market_open ''newyork'', cron [9] 30 None TZ_NY),
      (Market_close ''newyork'', cron [16] 0 None TZ_NY),
      (Signals, cron [10, 12, 14, 16] 0 None TZ_NY),
      (News, cron [7, 10, 13, 16] 0 None TZ_NY),
      (Events, cron [8] 0 (Some mon_fri) TZ_NY)]"

text \<open>The function each variant registered for a job.\<close>

fun run_job :: "config \<Rightarrow> world \<Rightarrow> job \<Rightarrow> unit io" where
  "run_job cfg w Good_morning = job_good_morning cfg w"
| "run_job cfg w (Market_open k) = job_market_open cfg w k"
| "run_job cfg w (Market_close k) = job_market_close cfg w k"
| "run_job cfg w Signals = job_signals cfg w"
| "run_job cfg w News = job_news cfg w"
| "run_job cfg w Events = job_events cfg w"

fun run_job_async :: "config \<Rightarrow> world \<Rightarrow> job \<Rightarrow> unit io" where
  "run_job_async cfg w Good_morning = good_morning cfg w"
| "run_job_async cfg w (Market_open k) = market_open_alert cfg w k"
| "run_job_async cfg w (Market_close k) = market_close_alert cfg w k"
| "run_job_async cfg w Signals = bullish_bearish_signal cfg w"
| "run_job_async cfg w News = breaking_news cfg w"
| "run_job_async cfg w Events = high_impact_events cfg w"

section \<open>Configuration and startup\<close>

text \<open>\<^verbatim>\<open>os.getenv(key, default)\<close>.\<close>

definition getenv :: "(string \<rightharpoonup> string) \<Rightarrow> string \<Rightarrow> string \<Rightarrow> string" where
  "getenv env key dflt = (case env key of None \<Rightarrow> dflt | Some v \<Rightarrow> v)"

text \<open>The three module-level assignments (\<^verbatim>\<open>bot.py\<close> 12-14, \<^verbatim>\<open>part_000\<close> 13-15).\<close>

definition load_config :: "(string \<rightharpoonup> string) \<Rightarrow> config" where
  "load_config env =
     \<lparr>TELEGRAM_TOKEN = getenv env ''TELEGRAM_TOKEN'' ''YOUR_TELEGRAM_BOT_TOKEN_HERE'',
      FINNHUB_API_KEY = getenv env ''FINNHUB_API_KEY'' ''YOUR_FINNHUB_API_KEY_HERE'',
      CHANNEL_ID = getenv env ''CHANNEL_ID'' ''YOUR_CHANNEL_OR_CHAT_ID_HERE''\<rparr>"

text \<open>
  The messaging library (python-telegram-bot) is a parameter of startup: what
  \<^verbatim>\<open>ApplicationBuilder().token(t).build()\<close> does with a token.
\<close>

record library =
  build :: "string \<Rightarrow> unit result"

text \<open>
  Where \<^verbatim>\<open>app.run_polling\<close> is called from: the main thread with no event loop running
  (\<^verbatim>\<open>bot.py\<close> 242), or a coroutine of the loop that \<^verbatim>\<open>asyncio.run\<close> is running
  (\<^verbatim>\<open>part_000\<close> 279 and 283).
\<close>

datatype caller = Main_thread | Running_loop

text \<open>
  What \<^verbatim>\<open>main\<close> does up to its last statement: the configuration and the table the
  scheduler was started with, if it was started, and the call of \<^verbatim>\<open>run_polling\<close>, if it
  was made, with the token of the application. What the library does in that call is not
  part of the program.
\<close>

record startup =
  scheduled :: "(config \<times> (job \<times> trigger) list) option"
  polled :: "(caller \<times> string) option"

text \<open>\<^verbatim>\<open>bot.py\<close> 203-242: build, add the jobs, \<^verbatim>\<open>scheduler.start()\<close>, \<^verbatim>\<open>run_polling\<close>.\<close>

definition main :: "library \<Rightarrow> (string \<rightharpoonup> string) \<Rightarrow> startup" where
  "main lib env =
     (let cfg = load_config env
      in case build lib (TELEGRAM_TOKEN cfg) of
           Raised e \<Rightarrow> \<lparr>scheduled = None, polled = None\<rparr>
         | Returned app \<Rightarrow>
             \<lparr>scheduled = Some (cfg, main_jobs),
              polled = Some (Main_thread, TELEGRAM_TOKEN cfg)\<rparr>)"

text \<open>
  \<^verbatim>\<open>part_000\<close> 267-279: the same steps around \<^verbatim>\<open>setup_scheduler\<close>, in a coroutine;
  \<^verbatim>\<open>run_polling\<close> is called there and its result awaited.
\<close>

definition main_async :: "library \<Rightarrow> (string \<rightharpoonup> string) \<Rightarrow> startup" where
  "main_async lib env =
     (let cfg = load_config env
      in case build lib (TELEGRAM_TOKEN cfg) of
           Raised e \<Rightarrow> \<lparr>scheduled = None, polled = None\<rparr>
         | Returned app \<Rightarrow>
             \<lparr>scheduled = Some (cfg, setup_scheduler),
              polled = Some (Running_loop, TELEGRAM_TOKEN cfg)\<rparr>)"

section \<open>Notions the properties are stated with\<close>

text \<open>The requests the two variants make.\<close>

definition quote_request :: "config \<Rightarrow> nat option \<Rightarrow> string \<Rightarrow> request" where
  "quote_request cfg t symbol = \<lparr>url = quote_url cfg symbol, timeout = t\<rparr>"

definition news_request :: "config \<Rightarrow> nat option \<Rightarrow> request" where
  "news_request cfg t = \<lparr>url = news_url cfg, timeout = t\<rparr>"

text \<open>
  The line a reply to a quote request contributes under a guard-and-format function \<open>f\<close>:
  none when the request failed, when the body did not decode, or when \<open>f\<close> raised or
  declined.
\<close>

definition quote_line :: "(json \<Rightarrow> string option result) \<Rightarrow> http_reply \<Rightarrow> string option" where
  "quote_line f reply =
     (case reply of
        Failed e \<Rightarrow> None
      | Reply st (Raised e) \<Rightarrow> None
      | Reply st (Returned q) \<Rightarrow> (case f q of Raised e \<Rightarrow> None | Returned line \<Rightarrow> line))"

text \<open>The texts a trace handed to the messaging service, in order.\<close>

fun outbound :: "event list \<Rightarrow> string list" where
  "outbound [] = []"
| "outbound (Bot_send chat text # evs) = text # outbound evs"
| "outbound (ev # evs) = outbound evs"

text \<open>The requests a trace made, in order.\<close>

fun requests :: "event list \<Rightarrow> request list" where
  "requests [] = []"
| "requests (Http_get rq # evs) = rq # requests evs"
| "requests (ev # evs) = requests evs"

fun is_dict :: "json \<Rightarrow> bool" where
  "is_dict (JObj kvs) = True"
| "is_dict _ = False"

fun is_list :: "json \<Rightarrow> bool" where
  "is_list (JList xs) = True"
| "is_list _ = False"

text \<open>A field of a news item, the empty string when the item has none.\<close>

definition item_field :: "string \<Rightarrow> json \<Rightarrow> json" where
  "item_field k item =
     (case item of
        JObj kvs \<Rightarrow> (case map_of kvs k of None \<Rightarrow> JStr [] | Some v \<Rightarrow> v)
      | _ \<Rightarrow> JStr [])"

definition has_headline :: "json \<Rightarrow> bool" where
  "has_headline item = truthy (item_field ''headline'' item)"

text \<open>The items of a response that the news digest renders.\<close>

definition rendered_items :: "json list \<Rightarrow> json list" where
  "rendered_items items = filter has_headline (take 4 items)"

definition item_entry :: "world \<Rightarrow> json \<Rightarrow> string" where
  "item_entry w item = news_entry w (item_field ''headline'' item) (item_field ''source'' item)"

definition news_message :: "world \<Rightarrow> json list \<Rightarrow> string" where
  "news_message w items = news_header @ concat (map (item_entry w) (rendered_items items))"

text \<open>
  What a news job does after the request, given the decoded body and the variant's
  dispatcher: nothing for an empty or non-list body, the digest when the first four items
  are dicts, and the job's error log line otherwise.
\<close>

definition news_outcome ::
  "(config \<Rightarrow> world \<Rightarrow> string \<Rightarrow> unit io) \<Rightarrow> config \<Rightarrow> world \<Rightarrow> json \<Rightarrow> event list" where
  "news_outcome sender cfg w data =
     (if first_if_list 4 data = [] then []
      else if list_all is_dict (first_if_list 4 data)
        then snd (sender cfg w (news_message w (first_if_list 4 data)))
      else [Log_error ''News error'' AttributeError])"

text \<open>The time of day in minutes.\<close>

definition minute_of_day :: "local_time \<Rightarrow> int" where
  "minute_of_day l = int (hour l) * 60 + int (minute l)"

text \<open>
  The schedule table of the specification, row by row: the job, its wall-clock hours and
  minute, its weekday filter and the zone the row is written in.
\<close>

definition spec_schedule :: "(job \<times> trigger) list" where
  "spec_schedule =
     [(Good_morning, cron [6] 0 None TZ_NY),
      (Market_open ''tokyo'', cron [9] 0 None TZ_TOKYO),
      (Market_close ''tokyo'', cron [15] 30 None TZ_TOKYO),
      (Market_open ''london'', cron [8] 0 None TZ_LONDON),
      (Market_close ''london'', cron [16] 30 None TZ_LONDON),
      (Market_open ''newyork'', cron [9] 30 None TZ_NY),
      (Market_close ''newyork'', cron [16] 0 None TZ_NY),
      (Signals, cron [10, 12, 14, 16] 0 None TZ_NY),
      (News, cron [7, 10, 13, 16] 0 None TZ_NY),
      (Events, cron [8] 0 (Some mon_fri) TZ_NY)]"

text \<open>A reply with its status replaced: what the provider would have sent under another status.\<close>

fun with_status :: "(nat \<Rightarrow> nat) \<Rightarrow> http_reply \<Rightarrow> http_reply" where
  "with_status f (Failed e) = Failed e"
| "with_status f (Reply st body) = Reply (f st) body"




section \<open>Sample inputs\<close>

text \<open>
  The zone data in force in winter (2024-01-15: New York at UTC-5, London at UTC, Tokyo at
  UTC+9) and in summer (2024-07-15: New York at UTC-4, London at UTC+1).
\<close>

definition tz_winter :: tzdata where
  "tz_winter =
     \<lparr>utc_offset = (\<lambda>z t. case z of TZ_NY \<Rightarrow> - 18000 | TZ_LONDON \<Rightarrow> 0 | TZ_TOKYO \<Rightarrow> 32400
                               | TZ_UTC \<Rightarrow> 0),
      tz_abbrev = (\<lambda>z t. case z of TZ_NY \<Rightarrow> ''EST'' | TZ_LONDON \<Rightarrow> ''GMT'' | TZ_TOKYO \<Rightarrow> ''JST''
                              | TZ_UTC \<Rightarrow> ''UTC'')\<rparr>"

definition tz_summer :: tzdata where
  "tz_summer =
     \<lparr>utc_offset = (\<lambda>z t. case z of TZ_NY \<Rightarrow> - 14400 | TZ_LONDON \<Rightarrow> 3600 | TZ_TOKYO \<Rightarrow> 32400
                               | TZ_UTC \<Rightarrow> 0),
      tz_abbrev = (\<lambda>z t. case z of TZ_NY \<Rightarrow> ''EDT'' | TZ_LONDON \<Rightarrow> ''BST'' | TZ_TOKYO \<Rightarrow> ''JST''
                              | TZ_UTC \<Rightarrow> ''UTC'')\<rparr>"

text \<open>Monday 2024-01-15 00:00 UTC and Monday 2024-07-15 00:00 UTC.\<close>

definition jan_15 :: int where
  "jan_15 = 1705276800"

definition jul_15 :: int where
  "jul_15 = 1721001600"

definition sample_config :: config where
  "sample_config = \<lparr>TELEGRAM_TOKEN = ''123:abc'', FINNHUB_API_KEY = ''key'', CHANNEL_ID = ''@desk''\<rparr>"

text \<open>A library that refuses to build from an empty token, and builds from any other.\<close>

definition sample_library :: library where
  "sample_library =
     \<lparr>build = (\<lambda>token. if token = [] then Raised InvalidToken else Returned ())\<rparr>"

text \<open>A world in which every request gets the reply \<open>r\<close> and the service answers \<open>d\<close>.\<close>

definition sample_world :: "http_reply \<Rightarrow> exn option \<Rightarrow> world" where
  "sample_world r d =
     \<lparr>http = (\<lambda>rq. r), telegram = (\<lambda>chat text. d), str_other = (\<lambda>v. ''?''),
      now = jan_15 + 15 * 3600, tz_database = tz_winter\<rparr>"

text \<open>
  A quote whose previous close is negative, as the front-month crude oil contract had
  after 2020-04-20 (previous close -37.63, price 10.01).
\<close>

definition negative_close :: json where
  "negative_close = JObj [(''c'', JNum (1001 / 100)), (''pc'', JNum (- 3763 / 100))]"

definition quote_110_100 :: json where
  "quote_110_100 = JObj [(''c'', JNum 110), (''pc'', JNum 100)]"

text \<open>Six news items; the second has an empty headline.\<close>

definition six_items :: "json list" where
  "six_items =
     [JObj [(''headline'', JStr ''A''), (''source'', JStr ''S1'')],
      JObj [(''headline'', JStr []), (''source'', JStr ''S2'')],
      JObj [(''headline'', JStr ''C''), (''source'', JStr ''S3'')],
      JObj [(''headline'', JStr ''D''), (''source'', JStr ''S4'')],
      JObj [(''headline'', JStr ''E''), (''source'', JStr ''S5'')],
      JObj [(''headline'', JStr ''F''), (''source'', JStr ''S6'')]]"

text \<open>Two news items without a headline.\<close>

definition blank_items :: "json list" where
  "blank_items =
     [JObj [(''headline'', JStr []), (''source'', JStr ''S1'')],
      JObj [(''source'', JStr ''S2'')]]"


text \<open>The Tokyo entry of the market table.\<close>

definition tokyo :: market where
  "tokyo = the (map_of MARKETS ''tokyo'')"

text \<open>
  A quote on which the guards of the two variants agree: a dict whose price is a number
  other than zero and whose previous close is a number that is not negative.
\<close>

definition plain_quote :: "json \<Rightarrow> bool" where
  "plain_quote q =
     (case q of
        JObj kvs \<Rightarrow>
          (case (map_of kvs ''c'', map_of kvs ''pc'') of
             (Some (JNum c), Some (JNum pc)) \<Rightarrow> c \<noteq> 0 \<and> 0 \<le> pc
           | _ \<Rightarrow> False)
      | _ \<Rightarrow> False)"

section \<open>What the jobs compute\<close>

subsection \<open>Raising and catching\<close>

lemma io_bind_Returned: "io_bind (Returned x, tr) f = (fst (f x), tr @ snd (f x))"
  by (simp add: io_bind_def split: prod.splits)

lemma io_bind_Raised: "io_bind (Raised e, tr) f = (Raised e, tr)"
  by (simp add: io_bind_def)

lemma try_except_Returned: "try_except (Returned x, tr) h = (Returned x, tr)"
  by (simp add: try_except_def)

lemma try_except_Raised: "try_except (Raised e, tr) h = (fst (h e), tr @ snd (h e))"
  by (simp add: try_except_def split: prod.splits)

subsection \<open>The dispatcher and the trace\<close>

text \<open>Either send operation makes the call, logs one line and returns.\<close>

lemma send_eq:
  "send cfg w text =
     (Returned (),
      Bot_send (CHANNEL_ID cfg) text #
      (case telegram w (CHANNEL_ID cfg) text of
         None \<Rightarrow> [Log_info ''Sent'' text]
       | Some e \<Rightarrow> [Log_error ''Send error'' e]))"
  by (simp add: send_def logger_error_def io_bind_Returned io_bind_Raised
      try_except_Returned try_except_Raised split: option.splits)

lemma send_message_eq:
  "send_message cfg w text =
     (Returned (),
      Bot_send (CHANNEL_ID cfg) text #
      (case telegram w (CHANNEL_ID cfg) text of
         None \<Rightarrow> [Log_info ''Sent'' text]
       | Some e \<Rightarrow> [Log_error ''Failed to send message'' e]))"
  by (simp add: send_message_def logger_error_def io_bind_Returned io_bind_Raised
      try_except_Returned try_except_Raised split: option.splits)

lemma outbound_append: "outbound (xs @ ys) = outbound xs @ outbound ys"
  by (induction xs rule: outbound.induct) simp_all

lemma requests_append: "requests (xs @ ys) = requests xs @ requests ys"
  by (induction xs rule: requests.induct) simp_all


lemma requests_gets: "requests (map (\<lambda>s. Http_get (f s)) xs) = map f xs"
  by (induction xs) simp_all

lemma outbound_send: "outbound (snd (send cfg w text)) = [text]"
  by (simp add: send_eq split: option.splits)

lemma outbound_send_message: "outbound (snd (send_message cfg w text)) = [text]"
  by (simp add: send_message_eq split: option.splits)

lemma requests_send: "requests (snd (send cfg w text)) = []"
  by (simp add: send_eq split: option.splits)


subsection \<open>The signal job\<close>

text \<open>
  One round of the loop never raises; the loop is a filter-map over the symbols.
\<close>

lemma fetch_quote_eq:
  "fetch_quote cfg w symbol =
     (case http w (quote_request cfg None symbol) of
        Failed e \<Rightarrow> Raised e
      | Reply st body \<Rightarrow> body,
      [Http_get (quote_request cfg None symbol)])"
  by (simp add: fetch_quote_def session_get_def resp_json_def io_lift_def quote_request_def
      io_bind_Returned io_bind_Raised split: http_reply.splits)

lemma bullish_bearish_symbol_eq:
  "bullish_bearish_symbol cfg w s =
     (Returned (quote_line (bullish_bearish_quote s) (http w (quote_request cfg None s))),
      [Http_get (quote_request cfg None s)])"
  by (simp add: bullish_bearish_symbol_def fetch_quote_def session_get_def resp_json_def
      io_lift_def io_return_def quote_line_def quote_request_def
      io_bind_Returned io_bind_Raised try_except_Returned try_except_Raised
      split: http_reply.splits result.splits)

lemma job_signals_symbol_eq:
  "job_signals_symbol cfg w s =
     (Returned (quote_line (job_signals_quote s) (http w (quote_request cfg (Some 10) s))),
      [Http_get (quote_request cfg (Some 10) s)])"
  by (simp add: job_signals_symbol_def session_get_def resp_json_def
      io_lift_def io_return_def quote_line_def quote_request_def
      io_bind_Returned io_bind_Raised try_except_Returned try_except_Raised
      split: http_reply.splits result.splits)

lemma bullish_bearish_loop_eq:
  "bullish_bearish_loop cfg w symbols results =
     (Returned (results @ List.map_filter
        (\<lambda>s. quote_line (bullish_bearish_quote s) (http w (quote_request cfg None s))) symbols),
      map (\<lambda>s. Http_get (quote_request cfg None s)) symbols)"
proof (induction symbols arbitrary: results)
  case Nil
  show ?case by (simp add: io_return_def List.map_filter_simps)
next
  case (Cons s symbols)
  show ?case
    by (simp add: Cons.IH bullish_bearish_symbol_eq io_bind_Returned List.map_filter_simps
        split: option.splits)
qed

lemma job_signals_fetch_eq:
  "job_signals_fetch cfg w symbols results =
     (Returned (results @ List.map_filter
        (\<lambda>s. quote_line (job_signals_quote s) (http w (quote_request cfg (Some 10) s))) symbols),
      map (\<lambda>s. Http_get (quote_request cfg (Some 10) s)) symbols)"
proof (induction symbols arbitrary: results)
  case Nil
  show ?case by (simp add: io_return_def List.map_filter_simps)
next
  case (Cons s symbols)
  show ?case
    by (simp add: Cons.IH job_signals_symbol_eq io_bind_Returned List.map_filter_simps
        split: option.splits)
qed

lemma bullish_bearish_signal_eq:
  "bullish_bearish_signal cfg w =
     (let lines = List.map_filter
        (\<lambda>s. quote_line (bullish_bearish_quote s) (http w (quote_request cfg None s)))
        [''SPY'', ''QQQ'', ''EURUSD'']
      in (Returned (),
          map (\<lambda>s. Http_get (quote_request cfg None s)) [''SPY'', ''QQQ'', ''EURUSD'']
          @ (if lines = [] then [] else snd (send_message cfg w (signal_message w lines)))))"
  unfolding bullish_bearish_signal_def bullish_bearish_loop_eq
  by (simp add: io_bind_Returned try_except_Returned io_return_def send_message_eq Let_def
      del: bullish_bearish_loop.simps map_filter_simps)

lemma job_signals_eq:
  "job_signals cfg w =
     (let lines = List.map_filter
        (\<lambda>s. quote_line (job_signals_quote s) (http w (quote_request cfg (Some 10) s)))
        [''SPY'', ''QQQ'', ''EURUSD'']
      in (Returned (),
          map (\<lambda>s. Http_get (quote_request cfg (Some 10) s)) [''SPY'', ''QQQ'', ''EURUSD'']
          @ (if lines = [] then [] else snd (send cfg w (signal_message w lines)))))"
  unfolding job_signals_def job_signals_fetch_eq
  by (simp add: io_bind_Returned try_except_Returned io_return_def send_eq Let_def
      del: job_signals_fetch.simps map_filter_simps)




lemma requests_job_signals:
  "requests (snd (job_signals cfg w)) = map (quote_request cfg (Some 10)) [''SPY'', ''QQQ'', ''EURUSD'']"
  unfolding job_signals_eq Let_def
  by (simp add: requests_append requests_send del: map_filter_simps)

subsection \<open>The news job\<close>

text \<open>The loop over the items raises exactly when one of them is not a dict.\<close>

lemma py_get_dict: "is_dict item \<Longrightarrow> py_get item k (JStr []) = Returned (item_field k item)"
  by (cases item) (simp_all add: item_field_def)

lemma py_get_not_dict: "\<not> is_dict item \<Longrightarrow> py_get item k d = Raised AttributeError"
  by (cases item) simp_all

lemma job_news_loop_dicts:
  "list_all is_dict items \<Longrightarrow>
   job_news_loop w items msg = Returned (msg @ concat (map (item_entry w) (filter has_headline items)))"
  by (induction items arbitrary: msg) (simp_all add: py_get_dict has_headline_def item_entry_def)

lemma job_news_loop_not_dicts:
  "\<not> list_all is_dict items \<Longrightarrow> job_news_loop w items msg = Raised AttributeError"
proof (induction items arbitrary: msg)
  case Nil
  then show ?case by simp
next
  case (Cons item items)
  show ?case
  proof (cases "is_dict item")
    case True
    with Cons.prems have "\<not> list_all is_dict items" by simp
    then show ?thesis using True by (simp add: py_get_dict Cons.IH)
  next
    case False
    then show ?thesis by (simp add: py_get_not_dict)
  qed
qed

lemma breaking_news_loop_dicts:
  "list_all is_dict items \<Longrightarrow>
   breaking_news_loop w items msg = Returned (msg @ concat (map (item_entry w) (filter has_headline items)))"
  by (induction items arbitrary: msg) (simp_all add: py_get_dict has_headline_def item_entry_def)

lemma breaking_news_loop_not_dicts:
  "\<not> list_all is_dict items \<Longrightarrow> breaking_news_loop w items msg = Raised AttributeError"
proof (induction items arbitrary: msg)
  case Nil
  then show ?case by simp
next
  case (Cons item items)
  show ?case
  proof (cases "is_dict item")
    case True
    with Cons.prems have "\<not> list_all is_dict items" by simp
    then show ?thesis using True by (simp add: py_get_dict Cons.IH)
  next
    case False
    then show ?thesis by (simp add: py_get_not_dict)
  qed
qed

lemma fetch_news_eq:
  "fetch_news cfg w =
     (case http w (news_request cfg None) of
        Failed e \<Rightarrow> Raised e
      | Reply st (Raised e) \<Rightarrow> Raised e
      | Reply st (Returned data) \<Rightarrow> Returned (first_if_list 5 data),
      [Http_get (news_request cfg None)])"
  by (simp add: fetch_news_def session_get_def resp_json_def io_lift_def io_return_def
      news_request_def io_bind_Returned io_bind_Raised split: http_reply.splits result.splits)

lemma job_news_fetch_eq:
  "job_news_fetch cfg w =
     (case http w (news_request cfg (Some 10)) of
        Failed e \<Rightarrow> Raised e
      | Reply st (Raised e) \<Rightarrow> Raised e
      | Reply st (Returned data) \<Rightarrow> Returned (first_if_list 4 data),
      [Http_get (news_request cfg (Some 10))])"
  by (simp add: job_news_fetch_def session_get_def resp_json_def io_lift_def io_return_def
      news_request_def io_bind_Returned io_bind_Raised split: http_reply.splits result.splits)

lemma job_news_eq:
  "job_news cfg w =
     (Returned (),
      Http_get (news_request cfg (Some 10)) #
      (case http w (news_request cfg (Some 10)) of
         Failed e \<Rightarrow> [Log_error ''News error'' e]
       | Reply st (Raised e) \<Rightarrow> [Log_error ''News error'' e]
       | Reply st (Returned data) \<Rightarrow> news_outcome send cfg w data))"
proof (cases "http w (news_request cfg (Some 10))")
  case (Failed e)
  then show ?thesis
    by (simp add: job_news_def job_news_fetch_def session_get_def news_request_def
        io_bind_Raised try_except_Raised logger_error_def)
next
  case (Reply st body)
  show ?thesis
  proof (cases body)
    case (Raised e)
    with Reply show ?thesis
      by (simp add: job_news_def job_news_fetch_def session_get_def news_request_def resp_json_def
          io_lift_def io_bind_Raised io_bind_Returned try_except_Raised logger_error_def)
  next
    case (Returned data)
    have fetch: "job_news_fetch cfg w = (Returned (first_if_list 4 data), [Http_get (news_request cfg (Some 10))])"
      using Reply Returned
      by (simp add: job_news_fetch_def session_get_def news_request_def resp_json_def
          io_lift_def io_return_def io_bind_Returned)
    show ?thesis
    proof (cases "first_if_list 4 data = []")
      case True
      then show ?thesis using Reply Returned
        by (simp add: job_news_def fetch io_bind_Returned io_return_def try_except_Returned
            news_outcome_def)
    next
      case False
      note nonempty = this
      show ?thesis
      proof (cases "list_all is_dict (first_if_list 4 data)")
        case True
        have take4: "take 4 (first_if_list 4 data) = first_if_list 4 data"
          by (simp add: first_if_list_def split: json.splits)
        show ?thesis using Reply Returned nonempty True
          by (simp add: job_news_def fetch io_bind_Returned io_lift_def try_except_Returned
              news_outcome_def job_news_loop_dicts news_message_def rendered_items_def take4
              send_eq)
      next
        case False
        then show ?thesis using Reply Returned nonempty
          by (simp add: job_news_def fetch io_bind_Returned io_bind_Raised io_lift_def
              try_except_Raised logger_error_def news_outcome_def job_news_loop_not_dicts)
      qed
    qed
  qed
qed

lemma take4_first5: "take 4 (first_if_list 5 data) = first_if_list 4 data"
  by (simp add: first_if_list_def split: json.splits)

lemma first5_empty: "first_if_list 5 data = [] \<longleftrightarrow> first_if_list 4 data = []"
  by (simp add: first_if_list_def split: json.splits)

lemma breaking_news_eq:
  "breaking_news cfg w =
     (Returned (),
      Http_get (news_request cfg None) #
      (case http w (news_request cfg None) of
         Failed e \<Rightarrow> [Log_error ''News error'' e]
       | Reply st (Raised e) \<Rightarrow> [Log_error ''News error'' e]
       | Reply st (Returned data) \<Rightarrow> news_outcome send_message cfg w data))"
proof (cases "http w (news_request cfg None)")
  case (Failed e)
  then show ?thesis
    by (simp add: breaking_news_def fetch_news_def session_get_def news_request_def
        io_bind_Raised try_except_Raised logger_error_def)
next
  case (Reply st body)
  show ?thesis
  proof (cases body)
    case (Raised e)
    with Reply show ?thesis
      by (simp add: breaking_news_def fetch_news_def session_get_def news_request_def resp_json_def
          io_lift_def io_bind_Raised io_bind_Returned try_except_Raised logger_error_def)
  next
    case (Returned data)
    have fetch: "fetch_news cfg w = (Returned (first_if_list 5 data), [Http_get (news_request cfg None)])"
      using Reply Returned
      by (simp add: fetch_news_def session_get_def news_request_def resp_json_def
          io_lift_def io_return_def io_bind_Returned)
    show ?thesis
    proof (cases "first_if_list 4 data = []")
      case True
      then show ?thesis using Reply Returned
        by (simp add: breaking_news_def fetch io_bind_Returned io_return_def try_except_Returned
            news_outcome_def first5_empty)
    next
      case False
      note nonempty = this
      show ?thesis
      proof (cases "list_all is_dict (first_if_list 4 data)")
        case True
        have take4: "take 4 (first_if_list 4 data) = first_if_list 4 data"
          by (simp add: first_if_list_def split: json.splits)
        show ?thesis using Reply Returned nonempty True
          by (simp add: breaking_news_def fetch io_bind_Returned io_lift_def try_except_Returned
              news_outcome_def breaking_news_loop_dicts news_message_def rendered_items_def
              take4 take4_first5 first5_empty send_message_eq)
      next
        case False
        then show ?thesis using Reply Returned nonempty
          by (simp add: breaking_news_def fetch io_bind_Returned io_bind_Raised io_lift_def
              try_except_Raised logger_error_def news_outcome_def breaking_news_loop_not_dicts
              take4_first5 first5_empty)
      qed
    qed
  qed
qed

lemma requests_job_news: "requests (snd (job_news cfg w)) = [news_request cfg (Some 10)]"
  by (simp add: job_news_eq news_outcome_def requests_send
      split: http_reply.splits result.splits)

lemma first_if_list_JList: "first_if_list n (JList items) = take n items"
  by (simp add: first_if_list_def)

lemma first_if_list_not_list: "\<not> is_list data \<Longrightarrow> first_if_list n data = []"
  by (cases data) (simp_all add: first_if_list_def)

lemma news_message_take: "news_message w (take 4 items) = news_message w items"
  by (simp add: news_message_def rendered_items_def)

lemma news_outcome_not_list: "\<not> is_list data \<Longrightarrow> news_outcome sender cfg w data = []"
  by (simp add: news_outcome_def first_if_list_not_list)

lemma news_outcome_dicts:
  "items \<noteq> [] \<Longrightarrow> list_all is_dict (take 4 items) \<Longrightarrow>
   news_outcome sender cfg w (JList items) = snd (sender cfg w (news_message w items))"
  by (simp add: news_outcome_def first_if_list_JList news_message_take)

lemma news_outcome_not_dicts:
  "\<not> list_all is_dict (take 4 items) \<Longrightarrow>
   news_outcome sender cfg w (JList items) = [Log_error ''News error'' AttributeError]"
  by (auto simp add: news_outcome_def first_if_list_JList)

subsection \<open>Every registered job returns\<close>

lemma market_of_registered:
  "market_of ''tokyo'' = Returned (the (map_of MARKETS ''tokyo''))"
  "market_of ''london'' = Returned (the (map_of MARKETS ''london''))"
  "market_of ''newyork'' = Returned (the (map_of MARKETS ''newyork''))"
  by (simp_all add: market_of_def MARKETS_def)

lemma job_good_morning_returns: "fst (job_good_morning cfg w) = Returned ()"
  by (simp add: job_good_morning_def send_eq)

lemma good_morning_returns: "fst (good_morning cfg w) = Returned ()"
  by (simp add: good_morning_def send_message_eq)

lemma job_events_returns: "fst (job_events cfg w) = Returned ()"
  by (simp add: job_events_def send_eq io_return_def Let_def split: option.splits)

lemma high_impact_events_returns: "fst (high_impact_events cfg w) = Returned ()"
  by (simp add: high_impact_events_def send_message_eq io_return_def Let_def split: option.splits)

lemma job_market_returns:
  "market_of k = Returned m \<Longrightarrow> fst (job_market_open cfg w k) = Returned ()"
  "market_of k = Returned m \<Longrightarrow> fst (job_market_close cfg w k) = Returned ()"
  by (simp_all add: job_market_open_def job_market_close_def io_lift_def io_bind_Returned send_eq)

lemma market_alert_returns:
  "market_of k = Returned m \<Longrightarrow> fst (market_open_alert cfg w k) = Returned ()"
  "market_of k = Returned m \<Longrightarrow> fst (market_close_alert cfg w k) = Returned ()"
  by (simp_all add: market_open_alert_def market_close_alert_def io_lift_def io_bind_Returned
      send_message_eq)

lemma job_signals_returns: "fst (job_signals cfg w) = Returned ()"
  by (simp add: job_signals_eq Let_def del: map_filter_simps)

lemma bullish_bearish_signal_returns: "fst (bullish_bearish_signal cfg w) = Returned ()"
  by (simp add: bullish_bearish_signal_eq Let_def del: map_filter_simps)

lemma job_news_returns: "fst (job_news cfg w) = Returned ()"
  by (simp add: job_news_eq)

lemma breaking_news_returns: "fst (breaking_news cfg w) = Returned ()"
  by (simp add: breaking_news_eq)

lemma registered_jobs_return:
  "list_all (\<lambda>j. fst (run_job cfg w j) = Returned ()) (map fst main_jobs)"
  by (simp add: main_jobs_def job_good_morning_returns job_events_returns job_signals_returns
      job_news_returns job_market_returns [OF market_of_registered(1)]
      job_market_returns [OF market_of_registered(2)]
      job_market_returns [OF market_of_registered(3)])

lemma registered_jobs_return_async:
  "list_all (\<lambda>j. fst (run_job_async cfg w j) = Returned ()) (map fst setup_scheduler)"
  by (simp add: setup_scheduler_def good_morning_returns high_impact_events_returns
      bullish_bearish_signal_returns breaking_news_returns
      market_alert_returns [OF market_of_registered(1)]
      market_alert_returns [OF market_of_registered(2)]
      market_alert_returns [OF market_of_registered(3)])

subsection \<open>The status of a response is not read\<close>

lemma quote_line_with_status: "quote_line f (with_status g r) = quote_line f r"
  by (cases r) (simp_all add: quote_line_def)

lemma signal_message_http: "signal_message (w\<lparr>http := h\<rparr>) ls = signal_message w ls"
  by (simp add: signal_message_def)

lemma send_http: "send cfg (w\<lparr>http := h\<rparr>) text = send cfg w text"
  by (simp add: send_eq)

lemma send_message_http: "send_message cfg (w\<lparr>http := h\<rparr>) text = send_message cfg w text"
  by (simp add: send_message_eq)

lemma item_entry_http: "item_entry (w\<lparr>http := h\<rparr>) = item_entry w"
  by (rule ext) (simp add: item_entry_def news_entry_def py_format_def split: json.splits)

lemma news_message_http: "news_message (w\<lparr>http := h\<rparr>) items = news_message w items"
  by (simp add: news_message_def item_entry_http)

lemma news_outcome_http:
  "news_outcome send cfg (w\<lparr>http := h\<rparr>) data = news_outcome send cfg w data"
  "news_outcome send_message cfg (w\<lparr>http := h\<rparr>) data = news_outcome send_message cfg w data"
  by (simp_all add: news_outcome_def news_message_http send_http send_message_http)

lemma job_signals_status:
  "job_signals cfg (w\<lparr>http := \<lambda>rq. with_status g (http w rq)\<rparr>) = job_signals cfg w"
  by (simp add: job_signals_eq quote_line_with_status signal_message_http send_http Let_def
      del: map_filter_simps)

lemma bullish_bearish_signal_status:
  "bullish_bearish_signal cfg (w\<lparr>http := \<lambda>rq. with_status g (http w rq)\<rparr>)
     = bullish_bearish_signal cfg w"
  by (simp add: bullish_bearish_signal_eq quote_line_with_status signal_message_http
      send_message_http Let_def del: map_filter_simps)

lemma job_news_status:
  "job_news cfg (w\<lparr>http := \<lambda>rq. with_status g (http w rq)\<rparr>) = job_news cfg w"
  by (cases "http w (news_request cfg (Some 10))")
     (simp_all add: job_news_eq news_outcome_http split: result.splits)

lemma breaking_news_status:
  "breaking_news cfg (w\<lparr>http := \<lambda>rq. with_status g (http w rq)\<rparr>) = breaking_news cfg w"
  by (cases "http w (news_request cfg None)")
     (simp_all add: breaking_news_eq news_outcome_http split: result.splits)

subsection \<open>Local time\<close>

lemma astimezone_fields:
  "weekday (astimezone db z t) = nat (((t + utcoffset db z t) div 86400 + 3) mod 7)"
  "hour (astimezone db z t) = nat ((t + utcoffset db z t) mod 86400 div 3600)"
  "minute (astimezone db z t) = nat ((t + utcoffset db z t) mod 3600 div 60)"
  by (simp_all add: astimezone_def Let_def)

lemma minute_astimezone: "minute (astimezone db z t) < 60"
proof -
  have "(t + utcoffset db z t) mod 3600 div 60 < 60"
    by (simp add: div_less_iff_less_mult pos_mod_bound [of 3600])
  moreover have "0 \<le> (t + utcoffset db z t) mod 3600 div 60"
    by (simp add: pos_imp_zdiv_nonneg_iff)
  ultimately show ?thesis
    by (simp add: astimezone_def Let_def)
qed

lemma hour_astimezone: "hour (astimezone db z t) < 24"
proof -
  have "(t + utcoffset db z t) mod 86400 div 3600 < 24"
    by (simp add: div_less_iff_less_mult pos_mod_bound [of 86400])
  moreover have "0 \<le> (t + utcoffset db z t) mod 86400 div 3600"
    by (simp add: pos_imp_zdiv_nonneg_iff)
  ultimately show ?thesis
    by (simp add: astimezone_def Let_def)
qed

lemma weekday_astimezone: "weekday (astimezone db z t) < 7"
proof -
  have "((t + utcoffset db z t) div 86400 + 3) mod 7 < 7"
    by (rule pos_mod_bound) simp
  moreover have "0 \<le> ((t + utcoffset db z t) div 86400 + 3) mod 7"
    by (rule pos_mod_sign) simp
  ultimately show ?thesis
    by (simp add: astimezone_def Let_def)
qed

subsection \<open>The session check\<close>

text \<open>Comparing hour and minute in turn is comparing the minute of the day.\<close>

lemma after_open:
  fixes h mi oh om :: int
  assumes "0 \<le> mi" "mi < 60" "0 \<le> om" "om < 60"
  shows "(oh < h \<or> (h = oh \<and> om \<le> mi)) \<longleftrightarrow> oh * 60 + om \<le> h * 60 + mi"
  using assms by arith

lemma before_close:
  fixes h mi ch cm :: int
  assumes "0 \<le> mi" "mi < 60" "0 \<le> cm" "cm < 60"
  shows "(h < ch \<or> (h = ch \<and> mi < cm)) \<longleftrightarrow> h * 60 + mi < ch * 60 + cm"
  using assms by arith

lemma is_open_minutes:
  assumes "parse_hm (m_open m) = Returned (oh, om)"
    and "parse_hm (m_close m) = Returned (ch, cm)"
    and "0 \<le> om" "om < 60" "0 \<le> cm" "cm < 60"
  shows "is_open db m t =
     Returned (weekday (astimezone db (m_tz m) t) < 5
       \<and> oh * 60 + om \<le> minute_of_day (astimezone db (m_tz m) t)
       \<and> minute_of_day (astimezone db (m_tz m) t) < ch * 60 + cm)"
proof -
  let ?l = "astimezone db (m_tz m) t"
  have mi: "0 \<le> int (minute ?l)" "int (minute ?l) < 60"
    using minute_astimezone [of db "m_tz m" t] by simp_all
  show ?thesis
    using assms(1,2)
    by (simp add: is_open_def Let_def minute_of_day_def
        after_open [OF mi assms(3,4)] before_close [OF mi assms(5,6)])
qed

lemma markets_parse:
  "parse_hm ''09:00'' = Returned (9, 0)" "parse_hm ''15:30'' = Returned (15, 30)"
  "parse_hm ''08:00'' = Returned (8, 0)" "parse_hm ''16:30'' = Returned (16, 30)"
  "parse_hm ''09:30'' = Returned (9, 30)" "parse_hm ''16:00'' = Returned (16, 0)"
  by (simp_all add: parse_hm_def py_int_def is_digit_def digit_value_def)

lemma registered_markets_sessions:
  assumes "(key, m) \<in> set MARKETS"
  shows "\<exists>oh om ch cm. parse_hm (m_open m) = Returned (oh, om)
           \<and> parse_hm (m_close m) = Returned (ch, cm)
           \<and> 0 \<le> om \<and> om < 60 \<and> 0 \<le> cm \<and> cm < 60 \<and> oh * 60 + om < ch * 60 + cm"
  using assms by (auto simp add: MARKETS_def markets_parse)

subsection \<open>The two guards\<close>

text \<open>
  What each variant does with a quote whose two fields are numbers, or whose previous close is
  missing.
\<close>

lemma floor_rat_numeral: "\<lfloor>numeral a / (numeral b :: rat)\<rfloor> = numeral a div numeral b"
  using floor_divide_of_int_eq [of "numeral a" "numeral b", where ?'a = rat] by simp

lemma format_2f_samples:
  "format_2f (476400 / 3763) = ''126.60''"
  "format_2f 100 = ''100.00''"
  "format_2f 10 = ''10.00''"
  by (simp_all add: format_2f_def round_half_even_def Let_def floor_rat_numeral str_nat.simps)

lemma map_of_nonempty: "map_of kvs k = Some v \<Longrightarrow> kvs \<noteq> []"
  by auto

lemma bullish_bearish_quote_numbers:
  assumes "map_of kvs ''c'' = Some (JNum c)" and "map_of kvs ''pc'' = Some (JNum pc)"
  shows "bullish_bearish_quote s (JObj kvs) =
     Returned (if 0 < pc then Some (signal_text s ((c - pc) / pc * 100)) else None)"
  using assms map_of_nonempty [OF assms(1)]
  by (simp add: bullish_bearish_quote_def py_gt0_def py_sub_def py_truediv_def)

lemma bullish_bearish_quote_no_close:
  assumes "map_of kvs ''pc'' = None \<or> map_of kvs ''pc'' = Some JNull"
  shows "bullish_bearish_quote s (JObj kvs) = Returned None"
  using assms
  by (auto simp add: bullish_bearish_quote_def split: option.splits)

lemma job_signals_quote_numbers:
  assumes "map_of kvs ''c'' = Some (JNum c)" and "map_of kvs ''pc'' = Some (JNum pc)"
  shows "job_signals_quote s (JObj kvs) =
     Returned (if c \<noteq> 0 \<and> pc \<noteq> 0 then Some (signal_text s ((c - pc) / pc * 100)) else None)"
  using assms map_of_nonempty [OF assms(1)]
  by (simp add: job_signals_quote_def py_sub_def py_truediv_def)

lemma job_signals_quote_no_close:
  assumes "map_of kvs ''pc'' = None \<or> map_of kvs ''pc'' = Some JNull"
  shows "job_signals_quote s (JObj kvs) = Returned None"
  using assms
  by (auto simp add: job_signals_quote_def split: option.splits)

lemma plain_quote_guards_agree:
  "plain_quote q \<Longrightarrow> job_signals_quote s q = bullish_bearish_quote s q"
  by (auto simp add: plain_quote_def bullish_bearish_quote_numbers job_signals_quote_numbers
      split: json.splits option.splits)

lemma signal_text_direction:
  "signal_text s pct =
     glyph_bullet @ '' *'' @ s @ ''*: ''
     @ (if 0 < pct then glyph_chart_up @ '' BULLISH '' @ glyph_up
        else glyph_chart_down @ '' BEARISH '' @ glyph_down)
     @ '' '' @ format_2f \<bar>pct\<bar> @ ''%''"
  by (simp add: signal_text_def)

lemma round_half_even_nearest: "\<bar>of_int (round_half_even x) - x\<bar> \<le> 1 / 2"
proof -
  have "of_int \<lfloor>x\<rfloor> \<le> x" "x < of_int \<lfloor>x\<rfloor> + 1"
    by linarith+
  then show ?thesis
    by (auto simp add: round_half_even_def Let_def abs_le_iff)
qed

lemma signal_examples:
  "bullish_bearish_quote ''SPY'' quote_110_100
     = Returned (Some (glyph_bullet @ '' *SPY*: '' @ glyph_chart_up @ '' BULLISH '' @ glyph_up @ '' 10.00%''))"
  "job_signals_quote ''SPY'' quote_110_100
     = Returned (Some (glyph_bullet @ '' *SPY*: '' @ glyph_chart_up @ '' BULLISH '' @ glyph_up @ '' 10.00%''))"
  "bullish_bearish_quote ''SPY'' (JObj [(''c'', JNum 90), (''pc'', JNum 100)])
     = Returned (Some (glyph_bullet @ '' *SPY*: '' @ glyph_chart_down @ '' BEARISH '' @ glyph_down @ '' 10.00%''))"
  "job_signals_quote ''SPY'' (JObj [(''c'', JNum 90), (''pc'', JNum 100)])
     = Returned (Some (glyph_bullet @ '' *SPY*: '' @ glyph_chart_down @ '' BEARISH '' @ glyph_down @ '' 10.00%''))"
  "bullish_bearish_quote ''SPY'' (JObj [(''c'', JNum 100), (''pc'', JNum 0)]) = Returned None"
  "job_signals_quote ''SPY'' (JObj [(''c'', JNum 100), (''pc'', JNum 0)]) = Returned None"
  "bullish_bearish_quote ''SPY'' (JObj [(''c'', JNum 100), (''pc'', JNum 100)])
     = Returned (Some (glyph_bullet @ '' *SPY*: '' @ glyph_chart_down @ '' BEARISH '' @ glyph_down @ '' 0.00%''))"
  by (simp_all add: bullish_bearish_quote_numbers job_signals_quote_numbers quote_110_100_def
      signal_text_def format_2f_def round_half_even_def str_nat.simps)

lemma negative_close_bot:
  "job_signals_quote s negative_close = Returned (Some (signal_text s (- (476400 / 3763))))"
  by (simp add: job_signals_quote_def negative_close_def py_sub_def py_truediv_def)

lemma negative_close_async: "bullish_bearish_quote s negative_close = Returned None"
  by (simp add: bullish_bearish_quote_def negative_close_def py_gt0_def)

subsection \<open>The tables at the sample instants\<close>

lemma setup_scheduler_is_spec_schedule: "setup_scheduler = spec_schedule"
  by (simp add: setup_scheduler_def spec_schedule_def)

lemma due_winter_main: "due tz_winter main_jobs (jan_15 + 28800) = [Market_open ''london'', News]"
  by code_simp

lemma due_winter_spec: "due tz_winter spec_schedule (jan_15 + 28800) = [Market_open ''london'']"
  by code_simp

lemma due_summer_main: "due tz_summer main_jobs (jul_15 + 54000) = [Signals]"
  by code_simp

lemma due_summer_spec: "due tz_summer spec_schedule (jul_15 + 54000) = []"
  by code_simp

lemma ny_winter: "hour (astimezone tz_winter TZ_NY (jan_15 + 28800)) = 3"
  "minute (astimezone tz_winter TZ_NY (jan_15 + 28800)) = 0"
  by (simp_all add: astimezone_fields utcoffset_def tz_winter_def jan_15_def)

lemma ny_summer: "hour (astimezone tz_summer TZ_NY (jul_15 + 54000)) = 11"
  "minute (astimezone tz_summer TZ_NY (jul_15 + 54000)) = 0"
  by (simp_all add: astimezone_fields utcoffset_def tz_summer_def jul_15_def)

subsection \<open>Where the two variants send the same text\<close>

text \<open>
  The jobs other than the signal job always do; the news jobs when the provider answers both
  requests alike; the signal jobs when in addition every quote is plain.
\<close>

lemma variants_same_text:
  "outbound (snd (job_good_morning cfg w)) = outbound (snd (good_morning cfg w))"
  "outbound (snd (job_market_open cfg w k)) = outbound (snd (market_open_alert cfg w k))"
  "outbound (snd (job_market_close cfg w k)) = outbound (snd (market_close_alert cfg w k))"
  "outbound (snd (job_events cfg w)) = outbound (snd (high_impact_events cfg w))"
proof -
  show "outbound (snd (job_good_morning cfg w)) = outbound (snd (good_morning cfg w))"
    by (simp add: job_good_morning_def good_morning_def outbound_send outbound_send_message)
  show "outbound (snd (job_market_open cfg w k)) = outbound (snd (market_open_alert cfg w k))"
    by (cases "market_of k")
       (simp_all add: job_market_open_def market_open_alert_def io_lift_def io_bind_Raised
         io_bind_Returned outbound_send outbound_send_message)
  show "outbound (snd (job_market_close cfg w k)) = outbound (snd (market_close_alert cfg w k))"
    by (cases "market_of k")
       (simp_all add: job_market_close_def market_close_alert_def io_lift_def io_bind_Raised
         io_bind_Returned outbound_send outbound_send_message)
  show "outbound (snd (job_events cfg w)) = outbound (snd (high_impact_events cfg w))"
    by (simp add: job_events_def high_impact_events_def Let_def outbound_send
        outbound_send_message io_return_def split: option.splits)
qed

lemma outbound_news_outcome:
  "outbound (news_outcome send cfg w data) = outbound (news_outcome send_message cfg w data)"
  by (simp add: news_outcome_def outbound_send outbound_send_message)

lemma variants_same_news:
  assumes "http w (news_request cfg (Some 10)) = http w (news_request cfg None)"
  shows "outbound (snd (job_news cfg w)) = outbound (snd (breaking_news cfg w))"
  using assms
  by (simp add: job_news_eq breaking_news_eq outbound_news_outcome
      split: http_reply.splits result.splits)

lemma variants_same_signals:
  assumes same: "\<And>s. http w (quote_request cfg (Some 10) s) = http w (quote_request cfg None s)"
    and plain: "\<And>s st q. http w (quote_request cfg None s) = Reply st (Returned q) \<Longrightarrow> plain_quote q"
  shows "outbound (snd (job_signals cfg w)) = outbound (snd (bullish_bearish_signal cfg w))"
proof -
  have "quote_line (job_signals_quote s) (http w (quote_request cfg (Some 10) s))
      = quote_line (bullish_bearish_quote s) (http w (quote_request cfg None s))" for s
  proof (cases "http w (quote_request cfg None s)")
    case (Failed e)
    then show ?thesis by (simp add: same quote_line_def)
  next
    case (Reply st body)
    then show ?thesis
      using plain [of s st] 
      by (cases body) (simp_all add: same quote_line_def plain_quote_guards_agree)
  qed
  then show ?thesis
    by (simp add: job_signals_eq bullish_bearish_signal_eq Let_def outbound_append
        outbound_send outbound_send_message del: map_filter_simps)
qed

subsection \<open>The fixed UTC hours against the table, in winter\<close>

text \<open>
  With New York at UTC-5, London at UTC and Tokyo at UTC+9, every trigger of
  \<^verbatim>\<open>bot.py\<close> but the news trigger fires exactly when the table's row
  does.
\<close>

lemma hour_of_seconds: "(x::int) mod 86400 div 3600 = x div 3600 mod 24"
proof -
  have "x mod (3600 * 24) = 3600 * (x div 3600 mod 24) + x mod 3600"
    by (rule zmod_zmult2_eq) simp
  then have "x mod 86400 = 3600 * (x div 3600 mod 24) + x mod 3600" by simp
  then show ?thesis by simp
qed

lemma day_of_seconds: "(x::int) div 86400 = x div 3600 div 24"
proof -
  have "x div (3600 * 24) = x div 3600 div 24"
    by (rule zdiv_zmult2_eq) simp
  then show ?thesis by simp
qed

lemma shift_hours:
  "(t + 3600 * k) div 3600 = t div 3600 + (k::int)"
  "(t + 3600 * k) mod 3600 = t mod 3600"
  by simp_all

lemma nat_mem_int_image: "0 \<le> z \<Longrightarrow> nat z \<in> set xs \<longleftrightarrow> z \<in> int ` set xs"
  by (metis image_iff int_nat_eq nat_int)

lemma fires_whole_hours:
  assumes "utcoffset db z t = 3600 * k"
  shows "fires db (cron hs m dow z) t =
     (t mod 60 = 0 \<and> (t div 3600 + k) mod 24 \<in> int ` set hs \<and> nat (t mod 3600 div 60) = m
      \<and> (case dow of None \<Rightarrow> True
          | Some ds \<Rightarrow> ((t div 3600 + k) div 24 + 3) mod 7 \<in> int ` set ds))"
proof -
  have h: "0 \<le> (t div 3600 + k) mod 24" by simp
  have d: "0 \<le> ((t div 3600 + k) div 24 + 3) mod 7" by simp
  show ?thesis
    by (simp add: fires_def cron_def astimezone_fields assms hour_of_seconds day_of_seconds
        shift_hours Let_def nat_mem_int_image [OF h] nat_mem_int_image [OF d]
        split: option.splits)
qed

lemma hour_minus:
  fixes q k h :: int
  assumes "0 \<le> h" "h < 24" "0 \<le> h + k" "h + k < 24"
  shows "((q - k) mod 24 = h) = (q mod 24 = h + k)"
proof -
  have a: "((q - k) mod 24 = h) = ((q - k) mod 24 = h mod 24)"
    using assms(1,2) by simp
  have b: "(q mod 24 = h + k) = (q mod 24 = (h + k) mod 24)"
    using assms(3,4) by simp
  have c: "q - k - h = q - (h + k)"
    by simp
  show ?thesis
    unfolding a b mod_eq_dvd_iff c ..
qed

lemma hour_plus:
  fixes q k h :: int
  assumes "0 \<le> h" "h < 24" "0 \<le> h - k" "h - k < 24"
  shows "((q + k) mod 24 = h) = (q mod 24 = h - k)"
proof -
  have a: "((q + k) mod 24 = h) = ((q + k) mod 24 = h mod 24)"
    using assms(1,2) by simp
  have b: "(q mod 24 = h - k) = (q mod 24 = (h - k) mod 24)"
    using assms(3,4) by simp
  have c: "q + k - h = q - (h - k)"
    by simp
  show ?thesis
    unfolding a b mod_eq_dvd_iff c ..
qed

lemma same_day:
  fixes q :: int
  assumes "q mod 24 = 13"
  shows "(q - 5) div 24 = q div 24"
proof -
  have "q = 24 * (q div 24) + q mod 24" by simp
  then have "q - 5 = 8 + 24 * (q div 24)" using assms by simp
  then have "(q - 5) div 24 = (8 + 24 * (q div 24)) div 24" by simp
  also have "\<dots> = q div 24" by simp
  finally show ?thesis .
qed

lemma main_jobs_match_table_in_winter:
  assumes ny: "utc_offset db TZ_NY t = - 18000"
    and london: "utc_offset db TZ_LONDON t = 0"
    and tokyo: "utc_offset db TZ_TOKYO t = 32400"
  shows "list_all2
           (\<lambda>a b. fst a = fst b \<and> (fst a \<noteq> News \<longrightarrow> fires db (snd a) t = fires db (snd b) t))
           main_jobs spec_schedule"
proof -
  have u: "utcoffset db TZ_UTC t = 3600 * 0" by (simp add: utcoffset_def)
  have n: "utcoffset db TZ_NY t = 3600 * (- 5)" by (simp add: utcoffset_def ny)
  have l: "utcoffset db TZ_LONDON t = 3600 * 0" by (simp add: utcoffset_def london)
  have k: "utcoffset db TZ_TOKYO t = 3600 * 9" by (simp add: utcoffset_def tokyo)
  note f = fires_whole_hours [OF u] fires_whole_hours [OF n] fires_whole_hours [OF l]
    fires_whole_hours [OF k]
  have r1: "fires db (cron [11] 0 None TZ_UTC) t = fires db (cron [6] 0 None TZ_NY) t"
    by (simp add: f hour_minus)
  have r2: "fires db (cron [0] 0 None TZ_UTC) t = fires db (cron [9] 0 None TZ_TOKYO) t"
    by (simp add: f hour_plus)
  have r3: "fires db (cron [6] 30 None TZ_UTC) t = fires db (cron [15] 30 None TZ_TOKYO) t"
    by (simp add: f hour_plus)
  have r4: "fires db (cron [8] 0 None TZ_UTC) t = fires db (cron [8] 0 None TZ_LONDON) t"
    by (simp add: f)
  have r5: "fires db (cron [16] 30 None TZ_UTC) t = fires db (cron [16] 30 None TZ_LONDON) t"
    by (simp add: f)
  have r6: "fires db (cron [14] 30 None TZ_UTC) t = fires db (cron [9] 30 None TZ_NY) t"
    by (simp add: f hour_minus)
  have r7: "fires db (cron [21] 0 None TZ_UTC) t = fires db (cron [16] 0 None TZ_NY) t"
    by (simp add: f hour_minus)
  have r8: "fires db (cron [15, 17, 19, 21] 0 None TZ_UTC) t
      = fires db (cron [10, 12, 14, 16] 0 None TZ_NY) t"
    by (simp add: f hour_minus)
  have r10: "fires db (cron [13] 0 (Some mon_fri) TZ_UTC) t
      = fires db (cron [8] 0 (Some mon_fri) TZ_NY) t"
    by (auto simp add: f hour_minus same_day)
  show ?thesis
    by (simp add: main_jobs_def spec_schedule_def r1 r2 r3 r4 r5 r6 r7 r8 r10)
qed

section \<open>Signal calculation on a quote\<close>

text \<open>
  C1. The signal calculation is to give no signal when the previous close is missing or not
  positive, and otherwise BULLISH or BEARISH with the percentage to two decimals. The guard
  of \<^verbatim>\<open>bot.py\<close> tests only the truth value of the two fields. On a quote with price 10.01
  and previous close -37.63 it therefore produces a line, BEARISH 126.60% for a price that
  rose, where \<^verbatim>\<open>part_000\<close>, which tests \<^verbatim>\<open>prev_close > 0\<close>, produces none. On a quote with
  price 0 and previous close 100 it produces no line, where \<^verbatim>\<open>part_000\<close> produces
  BEARISH 100.00%.
\<close>

theorem job_signals_quote_negative_previous_close:
  "job_signals_quote ''SPY'' negative_close
     = Returned (Some (glyph_bullet @ '' *SPY*: '' @ glyph_chart_down @ '' BEARISH '' @ glyph_down
                       @ '' 126.60%''))
   \<and> bullish_bearish_quote ''SPY'' negative_close = Returned None
   \<and> job_signals_quote ''SPY'' (JObj [(''c'', JNum 0), (''pc'', JNum 100)]) = Returned None
   \<and> bullish_bearish_quote ''SPY'' (JObj [(''c'', JNum 0), (''pc'', JNum 100)])
     = Returned (Some (glyph_bullet @ '' *SPY*: '' @ glyph_chart_down @ '' BEARISH '' @ glyph_down
                       @ '' 100.00%''))"
proof -
  have a: "signal_text ''SPY'' (- (476400 / 3763))
      = glyph_bullet @ '' *SPY*: '' @ glyph_chart_down @ '' BEARISH '' @ glyph_down @ '' 126.60%''"
    by (simp add: signal_text_def format_2f_samples)
  have b: "job_signals_quote ''SPY'' (JObj [(''c'', JNum 0), (''pc'', JNum 100)]) = Returned None"
    by (simp add: job_signals_quote_def)
  have c: "bullish_bearish_quote ''SPY'' (JObj [(''c'', JNum 0), (''pc'', JNum 100)])
      = Returned (Some (signal_text ''SPY'' (- 100)))"
    by (simp add: bullish_bearish_quote_def py_gt0_def py_sub_def py_truediv_def)
  have d: "signal_text ''SPY'' (- 100)
      = glyph_bullet @ '' *SPY*: '' @ glyph_chart_down @ '' BEARISH '' @ glyph_down @ '' 100.00%''"
    by (simp add: signal_text_def format_2f_samples)
  show ?thesis
    by (simp only: negative_close_bot negative_close_async a b c d simp_thms)
qed


section \<open>Session clock\<close>

text \<open>
  C2. For a market whose open and close fields parse to \<open>oh:om\<close> and \<open>ch:cm\<close> with minutes
  below 60, and for every instant and zone database, the session check projects the instant
  into the market's zone and answers: a weekday (Monday to Friday), and the local time of
  day, in whole minutes, in the half-open interval from open to close. So it answers false on
  Saturday and Sunday and at a local time equal to the close, and true on a weekday at a
  local time equal to the open (the open being before the close).
\<close>

theorem is_open_half_open_interval:
  assumes "parse_hm (m_open m) = Returned (oh, om)"
    and "parse_hm (m_close m) = Returned (ch, cm)"
    and "0 \<le> om" "om < 60" "0 \<le> cm" "cm < 60"
  shows "is_open db m t =
       Returned (weekday (astimezone db (m_tz m) t) < 5
         \<and> oh * 60 + om \<le> minute_of_day (astimezone db (m_tz m) t)
         \<and> minute_of_day (astimezone db (m_tz m) t) < ch * 60 + cm)
     \<and> (weekday (astimezone db (m_tz m) t) \<in> {5, 6} \<longrightarrow> is_open db m t = Returned False)
     \<and> (weekday (astimezone db (m_tz m) t) < 5
          \<and> minute_of_day (astimezone db (m_tz m) t) = oh * 60 + om
          \<and> oh * 60 + om < ch * 60 + cm
        \<longrightarrow> is_open db m t = Returned True)
     \<and> (minute_of_day (astimezone db (m_tz m) t) = ch * 60 + cm
        \<longrightarrow> is_open db m t = Returned False)"
  using is_open_minutes [OF assms, of db t] by auto


text \<open>
  Tokyo in winter: open on Monday 2024-01-15 at 09:00 local time, closed that day at 15:30,
  closed on Saturday 2024-01-20.
\<close>

theorem is_open_half_open_interval_witness:
  "parse_hm (m_open tokyo) = Returned (9, 0)
   \<and> parse_hm (m_close tokyo) = Returned (15, 30)
   \<and> minute_of_day (astimezone tz_winter (m_tz tokyo) jan_15) = 9 * 60 + 0
   \<and> is_open tz_winter tokyo jan_15 = Returned True
   \<and> minute_of_day (astimezone tz_winter (m_tz tokyo) (jan_15 + 23400)) = 15 * 60 + 30
   \<and> is_open tz_winter tokyo (jan_15 + 23400) = Returned False
   \<and> weekday (astimezone tz_winter (m_tz tokyo) (jan_15 + 432000)) = 5
   \<and> is_open tz_winter tokyo (jan_15 + 432000) = Returned False"
proof -
  have o: "parse_hm (m_open tokyo) = Returned (9, 0)"
    by (simp add: tokyo_def MARKETS_def markets_parse)
  have c: "parse_hm (m_close tokyo) = Returned (15, 30)"
    by (simp add: tokyo_def MARKETS_def markets_parse)
  have z: "m_tz tokyo = TZ_TOKYO"
    by (simp add: tokyo_def MARKETS_def)
  have t1: "minute_of_day (astimezone tz_winter TZ_TOKYO jan_15) = 540"
    "weekday (astimezone tz_winter TZ_TOKYO jan_15) = 0"
    by (simp_all add: minute_of_day_def astimezone_fields utcoffset_def tz_winter_def jan_15_def)
  have t2: "minute_of_day (astimezone tz_winter TZ_TOKYO (jan_15 + 23400)) = 930"
    by (simp add: minute_of_day_def astimezone_fields utcoffset_def tz_winter_def jan_15_def)
  have t3: "weekday (astimezone tz_winter TZ_TOKYO (jan_15 + 432000)) = 5"
    by (simp add: astimezone_fields utcoffset_def tz_winter_def jan_15_def)
  note inst = is_open_half_open_interval [OF o c, simplified z]
  show ?thesis
    using inst [of tz_winter jan_15] inst [of tz_winter "jan_15 + 23400"]
      inst [of tz_winter "jan_15 + 432000"] o c
    by (simp add: z t1 t2 t3)
qed


section \<open>Schedule\<close>

text \<open>
  C3. The triggers are to fire at the wall-clock times of the schedule table, each read in
  its zone, whatever the daylight-saving offset. \<^verbatim>\<open>setup_scheduler\<close> of \<^verbatim>\<open>part_000\<close>
  registers exactly the table. \<^verbatim>\<open>main\<close> of \<^verbatim>\<open>bot.py\<close> registers fixed UTC hours instead.
  On Monday 2024-01-15 at 08:00 UTC, 03:00 in New York, it fires the news digest, which the
  table has at 07:00, 10:00, 13:00 and 16:00 New York time. On Monday 2024-07-15 at 15:00
  UTC, 11:00 in New York under daylight saving, it fires the signal digest, which the table
  has at 10:00, 12:00, 14:00 and 16:00.
\<close>

theorem main_jobs_fire_off_schedule:
  "due tz_winter main_jobs (jan_15 + 28800) = [Market_open ''london'', News]
   \<and> due tz_winter spec_schedule (jan_15 + 28800) = [Market_open ''london'']
   \<and> hour (astimezone tz_winter TZ_NY (jan_15 + 28800)) = 3
   \<and> minute (astimezone tz_winter TZ_NY (jan_15 + 28800)) = 0
   \<and> due tz_summer main_jobs (jul_15 + 54000) = [Signals]
   \<and> due tz_summer spec_schedule (jul_15 + 54000) = []
   \<and> hour (astimezone tz_summer TZ_NY (jul_15 + 54000)) = 11
   \<and> minute (astimezone tz_summer TZ_NY (jul_15 + 54000)) = 0
   \<and> due tz_winter setup_scheduler (jan_15 + 28800) = [Market_open ''london'']
   \<and> due tz_summer setup_scheduler (jul_15 + 54000) = []"
  by (simp add: due_winter_main due_winter_spec due_summer_main due_summer_spec ny_winter
      ny_summer setup_scheduler_is_spec_schedule)


section \<open>The two variants side by side\<close>

text \<open>
  C4. The two variants are to send the same texts from the same inputs and to fire at the
  same instants. They do not: at the two instants above the jobs due under \<^verbatim>\<open>bot.py\<close>
  differ from those due under \<^verbatim>\<open>part_000\<close>, and when every quote has price 10.01 and
  previous close -37.63 the signal job of \<^verbatim>\<open>bot.py\<close> sends three lines where that of
  \<^verbatim>\<open>part_000\<close> sends nothing.
\<close>

theorem variants_diverge:
  "due tz_winter main_jobs (jan_15 + 28800) \<noteq> due tz_winter setup_scheduler (jan_15 + 28800)
   \<and> due tz_summer main_jobs (jul_15 + 54000) \<noteq> due tz_summer setup_scheduler (jul_15 + 54000)
   \<and> outbound (snd (job_signals sample_config (sample_world (Reply 200 (Returned negative_close)) None)))
     = [signal_message (sample_world (Reply 200 (Returned negative_close)) None)
          [signal_text ''SPY'' (- (476400 / 3763)), signal_text ''QQQ'' (- (476400 / 3763)),
           signal_text ''EURUSD'' (- (476400 / 3763))]]
   \<and> outbound (snd (bullish_bearish_signal sample_config
        (sample_world (Reply 200 (Returned negative_close)) None))) = []"
proof -
  have t: "due tz_winter main_jobs (jan_15 + 28800) \<noteq> due tz_winter setup_scheduler (jan_15 + 28800)"
    "due tz_summer main_jobs (jul_15 + 54000) \<noteq> due tz_summer setup_scheduler (jul_15 + 54000)"
    by (simp_all add: due_winter_main due_winter_spec due_summer_main due_summer_spec
        setup_scheduler_is_spec_schedule)
  have h: "http (sample_world (Reply 200 (Returned negative_close)) None) rq
      = Reply 200 (Returned negative_close)" for rq
    by (simp add: sample_world_def)
  have b: "outbound (snd (job_signals sample_config (sample_world (Reply 200 (Returned negative_close)) None)))
     = [signal_message (sample_world (Reply 200 (Returned negative_close)) None)
          [signal_text ''SPY'' (- (476400 / 3763)), signal_text ''QQQ'' (- (476400 / 3763)),
           signal_text ''EURUSD'' (- (476400 / 3763))]]"
    by (simp add: job_signals_eq h quote_line_def negative_close_bot map_filter_simps
        outbound_append outbound_send)
  have a: "outbound (snd (bullish_bearish_signal sample_config
        (sample_world (Reply 200 (Returned negative_close)) None))) = []"
    by (simp add: bullish_bearish_signal_eq h quote_line_def negative_close_async map_filter_simps)
  show ?thesis using t a b by blast
qed


section \<open>Startup\<close>

text \<open>
  C5, as the code has it. A configuration value absent from the environment is replaced by
  its placeholder default, and the program checks none of the three values. In either
  variant the scheduler is started exactly when the messaging library builds the application
  from the token, with the resulting configuration, placeholders included; \<^verbatim>\<open>run_polling\<close>
  is then called with that token. Whether the scheduler is started never depends on the API
  key or on the channel identifier, present or absent.
\<close>

theorem startup_uses_placeholders:
  "load_config env =
     \<lparr>TELEGRAM_TOKEN = (case env ''TELEGRAM_TOKEN'' of
                          None \<Rightarrow> ''YOUR_TELEGRAM_BOT_TOKEN_HERE'' | Some v \<Rightarrow> v),
      FINNHUB_API_KEY = (case env ''FINNHUB_API_KEY'' of
                           None \<Rightarrow> ''YOUR_FINNHUB_API_KEY_HERE'' | Some v \<Rightarrow> v),
      CHANNEL_ID = (case env ''CHANNEL_ID'' of
                      None \<Rightarrow> ''YOUR_CHANNEL_OR_CHAT_ID_HERE'' | Some v \<Rightarrow> v)\<rparr>
   \<and> scheduled (main lib env) =
       (case build lib (TELEGRAM_TOKEN (load_config env)) of
          Raised e \<Rightarrow> None | Returned app \<Rightarrow> Some (load_config env, main_jobs))
   \<and> scheduled (main_async lib env) =
       (case build lib (TELEGRAM_TOKEN (load_config env)) of
          Raised e \<Rightarrow> None | Returned app \<Rightarrow> Some (load_config env, setup_scheduler))
   \<and> polled (main lib env) =
       (case build lib (TELEGRAM_TOKEN (load_config env)) of
          Raised e \<Rightarrow> None
        | Returned app \<Rightarrow> Some (Main_thread, TELEGRAM_TOKEN (load_config env)))
   \<and> polled (main_async lib env) =
       (case build lib (TELEGRAM_TOKEN (load_config env)) of
          Raised e \<Rightarrow> None
        | Returned app \<Rightarrow> Some (Running_loop, TELEGRAM_TOKEN (load_config env)))
   \<and> (scheduled (main lib (env(''FINNHUB_API_KEY'' := key, ''CHANNEL_ID'' := channel))) = None)
       = (scheduled (main lib env) = None)
   \<and> (scheduled (main_async lib (env(''FINNHUB_API_KEY'' := key, ''CHANNEL_ID'' := channel)))
        = None)
       = (scheduled (main_async lib env) = None)"
proof -
  let ?env' = "env(''FINNHUB_API_KEY'' := key, ''CHANNEL_ID'' := channel)"
  have cfg: "load_config env =
     \<lparr>TELEGRAM_TOKEN = (case env ''TELEGRAM_TOKEN'' of
                          None \<Rightarrow> ''YOUR_TELEGRAM_BOT_TOKEN_HERE'' | Some v \<Rightarrow> v),
      FINNHUB_API_KEY = (case env ''FINNHUB_API_KEY'' of
                           None \<Rightarrow> ''YOUR_FINNHUB_API_KEY_HERE'' | Some v \<Rightarrow> v),
      CHANNEL_ID = (case env ''CHANNEL_ID'' of
                      None \<Rightarrow> ''YOUR_CHANNEL_OR_CHAT_ID_HERE'' | Some v \<Rightarrow> v)\<rparr>"
    by (simp add: load_config_def getenv_def)
  have s1: "scheduled (main lib env) =
       (case build lib (TELEGRAM_TOKEN (load_config env)) of
          Raised e \<Rightarrow> None | Returned app \<Rightarrow> Some (load_config env, main_jobs))"
    by (simp add: main_def Let_def split: result.splits)
  have s2: "scheduled (main_async lib env) =
       (case build lib (TELEGRAM_TOKEN (load_config env)) of
          Raised e \<Rightarrow> None | Returned app \<Rightarrow> Some (load_config env, setup_scheduler))"
    by (simp add: main_async_def Let_def split: result.splits)
  have p1: "polled (main lib env) =
       (case build lib (TELEGRAM_TOKEN (load_config env)) of
          Raised e \<Rightarrow> None
        | Returned app \<Rightarrow> Some (Main_thread, TELEGRAM_TOKEN (load_config env)))"
    by (simp add: main_def Let_def split: result.splits)
  have p2: "polled (main_async lib env) =
       (case build lib (TELEGRAM_TOKEN (load_config env)) of
          Raised e \<Rightarrow> None
        | Returned app \<Rightarrow> Some (Running_loop, TELEGRAM_TOKEN (load_config env)))"
    by (simp add: main_async_def Let_def split: result.splits)
  have token: "TELEGRAM_TOKEN (load_config ?env') = TELEGRAM_TOKEN (load_config env)"
    by (simp add: load_config_def getenv_def)
  have i1: "(scheduled (main lib ?env') = None) = (scheduled (main lib env) = None)"
    by (simp add: main_def Let_def token split: result.splits)
  have i2: "(scheduled (main_async lib ?env') = None) = (scheduled (main_async lib env) = None)"
    by (simp add: main_async_def Let_def token split: result.splits)
  show ?thesis using cfg s1 s2 p1 p2 i1 i2 by blast
qed

text \<open>
  With an empty environment the scheduler is started on the three placeholders, and
  \<^verbatim>\<open>run_polling\<close> is called with the placeholder token.
\<close>

theorem startup_uses_placeholders_example:
  "scheduled (main sample_library Map.empty) =
     Some (\<lparr>TELEGRAM_TOKEN = ''YOUR_TELEGRAM_BOT_TOKEN_HERE'',
            FINNHUB_API_KEY = ''YOUR_FINNHUB_API_KEY_HERE'',
            CHANNEL_ID = ''YOUR_CHANNEL_OR_CHAT_ID_HERE''\<rparr>, main_jobs)
   \<and> scheduled (main_async sample_library Map.empty) =
     Some (\<lparr>TELEGRAM_TOKEN = ''YOUR_TELEGRAM_BOT_TOKEN_HERE'',
            FINNHUB_API_KEY = ''YOUR_FINNHUB_API_KEY_HERE'',
            CHANNEL_ID = ''YOUR_CHANNEL_OR_CHAT_ID_HERE''\<rparr>, setup_scheduler)
   \<and> polled (main sample_library Map.empty)
     = Some (Main_thread, ''YOUR_TELEGRAM_BOT_TOKEN_HERE'')
   \<and> polled (main_async sample_library Map.empty)
     = Some (Running_loop, ''YOUR_TELEGRAM_BOT_TOKEN_HERE'')"
  using startup_uses_placeholders [of Map.empty sample_library None None]
  by (simp add: sample_library_def)

text \<open>
  C5 as stated fails: with only the bot token in the environment, both variants start the
  scheduler, with placeholders for the API key and the channel, and go on to call
  \<^verbatim>\<open>run_polling\<close>; with nothing in the environment both still start the scheduler.
\<close>

theorem startup_without_key_and_channel:
  "main sample_library [''TELEGRAM_TOKEN'' \<mapsto> ''123:abc''] =
     \<lparr>scheduled = Some (\<lparr>TELEGRAM_TOKEN = ''123:abc'',
                          FINNHUB_API_KEY = ''YOUR_FINNHUB_API_KEY_HERE'',
                          CHANNEL_ID = ''YOUR_CHANNEL_OR_CHAT_ID_HERE''\<rparr>, main_jobs),
      polled = Some (Main_thread, ''123:abc'')\<rparr>
   \<and> main_async sample_library [''TELEGRAM_TOKEN'' \<mapsto> ''123:abc''] =
     \<lparr>scheduled = Some (\<lparr>TELEGRAM_TOKEN = ''123:abc'',
                          FINNHUB_API_KEY = ''YOUR_FINNHUB_API_KEY_HERE'',
                          CHANNEL_ID = ''YOUR_CHANNEL_OR_CHAT_ID_HERE''\<rparr>, setup_scheduler),
      polled = Some (Running_loop, ''123:abc'')\<rparr>
   \<and> scheduled (main sample_library Map.empty) \<noteq> None
   \<and> scheduled (main_async sample_library Map.empty) \<noteq> None"
  by (simp add: load_config_def getenv_def main_def main_async_def sample_library_def Let_def)

section \<open>Failures of the market-data requests\<close>

text \<open>
  C6, as the code has it. Neither operation returns a failure value. A request that fails
  (a timeout is one way) or a body that does not decode raises out of the fetch; the caller
  catches the exception, per symbol for a quote and at the job for the news, so that each job
  returns. The status of a response is never read: with any other status on the same
  replies, each of the four jobs does exactly the same. Both requests of \<^verbatim>\<open>bot.py\<close>
  carry a total timeout of 10 seconds.
\<close>

theorem fetch_raises_and_caller_catches:
  "fetch_quote cfg w symbol =
     (case http w (quote_request cfg None symbol) of
        Failed e \<Rightarrow> Raised e
      | Reply st body \<Rightarrow> body,
      [Http_get (quote_request cfg None symbol)])
   \<and> fetch_news cfg w =
     (case http w (news_request cfg None) of
        Failed e \<Rightarrow> Raised e
      | Reply st (Raised e) \<Rightarrow> Raised e
      | Reply st (Returned data) \<Rightarrow> Returned (first_if_list 5 data),
      [Http_get (news_request cfg None)])
   \<and> job_news_fetch cfg w =
     (case http w (news_request cfg (Some 10)) of
        Failed e \<Rightarrow> Raised e
      | Reply st (Raised e) \<Rightarrow> Raised e
      | Reply st (Returned data) \<Rightarrow> Returned (first_if_list 4 data),
      [Http_get (news_request cfg (Some 10))])
   \<and> fst (bullish_bearish_symbol cfg w symbol) \<noteq> Raised e
   \<and> fst (job_signals_symbol cfg w symbol) \<noteq> Raised e
   \<and> fst (bullish_bearish_signal cfg w) = Returned ()
   \<and> fst (job_signals cfg w) = Returned ()
   \<and> fst (breaking_news cfg w) = Returned ()
   \<and> fst (job_news cfg w) = Returned ()
   \<and> bullish_bearish_signal cfg (w\<lparr>http := \<lambda>rq. with_status g (http w rq)\<rparr>)
       = bullish_bearish_signal cfg w
   \<and> job_signals cfg (w\<lparr>http := \<lambda>rq. with_status g (http w rq)\<rparr>) = job_signals cfg w
   \<and> breaking_news cfg (w\<lparr>http := \<lambda>rq. with_status g (http w rq)\<rparr>) = breaking_news cfg w
   \<and> job_news cfg (w\<lparr>http := \<lambda>rq. with_status g (http w rq)\<rparr>) = job_news cfg w
   \<and> requests (snd (job_signals cfg w))
       = map (quote_request cfg (Some 10)) [''SPY'', ''QQQ'', ''EURUSD'']
   \<and> requests (snd (job_news cfg w)) = [news_request cfg (Some 10)]"
  using fetch_quote_eq [of cfg w symbol] fetch_news_eq [of cfg w] job_news_fetch_eq [of cfg w]
    bullish_bearish_signal_returns [of cfg w] job_signals_returns [of cfg w]
    breaking_news_returns [of cfg w] job_news_returns [of cfg w]
    bullish_bearish_signal_status [of cfg g w] job_signals_status [of cfg g w]
    breaking_news_status [of cfg g w] job_news_status [of cfg g w]
    requests_job_signals [of cfg w] requests_job_news [of cfg w]
  by (simp add: bullish_bearish_symbol_eq job_signals_symbol_eq)


text \<open>
  C6 as stated fails: on a timeout \<^verbatim>\<open>fetch_quote\<close> raises, on a response with status 500
  and a decodable body it returns the body, and the signal job then sends the three lines
  computed from it; on an undecodable body \<^verbatim>\<open>fetch_news\<close> raises. The requests of
  \<^verbatim>\<open>part_000\<close> are made without a timeout of their own.
\<close>

theorem fetch_returns_no_typed_failure:
  "fetch_quote sample_config (sample_world (Failed TimeoutError) None) ''SPY''
     = (Raised TimeoutError, [Http_get \<lparr>url = ''https://finnhub.io/api/v1/quote?symbol=SPY&token=key'', timeout = None\<rparr>])
   \<and> fetch_quote sample_config (sample_world (Reply 500 (Returned quote_110_100)) None) ''SPY''
     = (Returned quote_110_100, [Http_get \<lparr>url = ''https://finnhub.io/api/v1/quote?symbol=SPY&token=key'', timeout = None\<rparr>])
   \<and> outbound (snd (bullish_bearish_signal sample_config (sample_world (Reply 500 (Returned quote_110_100)) None)))
     = [signal_message (sample_world (Reply 500 (Returned quote_110_100)) None)
          [signal_text ''SPY'' 10, signal_text ''QQQ'' 10, signal_text ''EURUSD'' 10]]
   \<and> fetch_news sample_config (sample_world (Reply 500 (Raised JSONDecodeError)) None)
     = (Raised JSONDecodeError, [Http_get \<lparr>url = ''https://finnhub.io/api/v1/news?category=general&token=key'', timeout = None\<rparr>])"
  by (simp add: fetch_quote_eq fetch_news_eq sample_world_def sample_config_def quote_request_def
      news_request_def quote_url_def news_url_def bullish_bearish_signal_eq outbound_append
      outbound_send_message map_filter_simps quote_line_def quote_110_100_def
      bullish_bearish_quote_def py_sub_def py_truediv_def py_gt0_def)


section \<open>Per-symbol isolation in the signal job\<close>



section \<open>Dispatcher failures\<close>

text \<open>
  C8, as the code has it. For every text, the send operation of either variant catches the
  exception of a failed delivery and logs it, and it returns normally, with no value, after a
  failed delivery as after a successful one: nothing tells the caller that the send failed.
  It never raises, so every job the scheduler registered returns, whatever the messaging
  service does.
\<close>

theorem send_swallows_delivery_failure:
  "send cfg w text =
     (Returned (),
      Bot_send (CHANNEL_ID cfg) text #
      (case telegram w (CHANNEL_ID cfg) text of
         None \<Rightarrow> [Log_info ''Sent'' text]
       | Some e \<Rightarrow> [Log_error ''Send error'' e]))
   \<and> send_message cfg w text =
     (Returned (),
      Bot_send (CHANNEL_ID cfg) text #
      (case telegram w (CHANNEL_ID cfg) text of
         None \<Rightarrow> [Log_info ''Sent'' text]
       | Some e \<Rightarrow> [Log_error ''Failed to send message'' e]))
   \<and> list_all (\<lambda>j. fst (run_job cfg w j) = Returned ()) (map fst main_jobs)
   \<and> list_all (\<lambda>j. fst (run_job_async cfg w j) = Returned ()) (map fst setup_scheduler)"
  using send_eq [of cfg w "text"] send_message_eq [of cfg w "text"]
    registered_jobs_return [of cfg w] registered_jobs_return_async [of cfg w]
  by blast


text \<open>A delivery that fails: the call is made, the error is logged, the function returns.\<close>

theorem send_swallows_delivery_failure_example:
  "send sample_config (sample_world (Failed ClientError) (Some TelegramError)) ''hello''
     = (Returned (), [Bot_send ''@desk'' ''hello'', Log_error ''Send error'' TelegramError])
   \<and> send_message sample_config (sample_world (Failed ClientError) (Some TelegramError)) ''hello''
     = (Returned (), [Bot_send ''@desk'' ''hello'', Log_error ''Failed to send message'' TelegramError])"
  using send_swallows_delivery_failure
    [of sample_config "sample_world (Failed ClientError) (Some TelegramError)" "''hello''"]
  by (simp add: sample_world_def sample_config_def)



text \<open>
  C8 as stated fails where it says that the send operation returns a failure to its caller:
  what it returns when the service raises is what it returns when the service delivers.
\<close>

theorem send_returns_no_failure:
  "fst (send sample_config (sample_world (Failed ClientError) (Some TelegramError)) ''hello'')
     = fst (send sample_config (sample_world (Failed ClientError) None) ''hello'')
   \<and> fst (send_message sample_config (sample_world (Failed ClientError) (Some TelegramError)) ''hello'')
     = fst (send_message sample_config (sample_world (Failed ClientError) None) ''hello'')
   \<and> telegram (sample_world (Failed ClientError) (Some TelegramError)) (CHANNEL_ID sample_config) ''hello''
     = Some TelegramError
   \<and> telegram (sample_world (Failed ClientError) None) (CHANNEL_ID sample_config) ''hello'' = None"
  by (simp add: send_eq send_message_eq sample_world_def)


section \<open>News digest\<close>

text \<open>
  C9. Whenever the news request is answered with a decodable body, the news job of either
  variant returns. A body that is not a list is zero items: the job does nothing more than
  the request, sends nothing and logs no error. For a non-empty list whose first four items
  are dicts, the one message sent is the header followed by the entries of those of the first
  four items whose headline is not empty, in order; so at most four items are rendered, and
  an item with an empty headline is left out without disturbing the others. (When one of the
  first four items is not a dict, the job logs its error and sends nothing.)
\<close>

theorem news_digest_renders_at_most_four:
  assumes bot: "http w (news_request cfg (Some 10)) = Reply st (Returned data)"
    and part: "http w (news_request cfg None) = Reply st' (Returned data)"
  shows "fst (job_news cfg w) = Returned () \<and> fst (breaking_news cfg w) = Returned ()
    \<and> (\<not> is_list data \<longrightarrow>
          snd (job_news cfg w) = [Http_get (news_request cfg (Some 10))]
        \<and> snd (breaking_news cfg w) = [Http_get (news_request cfg None)])
    \<and> (\<forall>items. data = JList items \<and> items \<noteq> [] \<and> list_all is_dict (take 4 items) \<longrightarrow>
          outbound (snd (job_news cfg w))
            = [news_header @ concat (map (item_entry w) (filter has_headline (take 4 items)))]
        \<and> outbound (snd (breaking_news cfg w))
            = [news_header @ concat (map (item_entry w) (filter has_headline (take 4 items)))]
        \<and> length (filter has_headline (take 4 items)) \<le> 4)
    \<and> (\<forall>items. data = JList items \<and> \<not> list_all is_dict (take 4 items) \<longrightarrow>
          outbound (snd (job_news cfg w)) = [] \<and> outbound (snd (breaking_news cfg w)) = [])"
proof -
  have r: "fst (job_news cfg w) = Returned () \<and> fst (breaking_news cfg w) = Returned ()"
    by (simp add: job_news_eq breaking_news_eq)
  have a: "snd (job_news cfg w) = [Http_get (news_request cfg (Some 10))]
        \<and> snd (breaking_news cfg w) = [Http_get (news_request cfg None)]"
    if "\<not> is_list data"
    using that bot part by (simp add: job_news_eq breaking_news_eq news_outcome_not_list)
  have b: "outbound (snd (job_news cfg w))
            = [news_header @ concat (map (item_entry w) (filter has_headline (take 4 items)))]
        \<and> outbound (snd (breaking_news cfg w))
            = [news_header @ concat (map (item_entry w) (filter has_headline (take 4 items)))]
        \<and> length (filter has_headline (take 4 items)) \<le> 4"
    if "data = JList items" "items \<noteq> []" "list_all is_dict (take 4 items)" for items
  proof -
    have "length (filter has_headline (take 4 items)) \<le> length (take 4 items)"
      by (rule length_filter_le)
    then have "length (filter has_headline (take 4 items)) \<le> 4" by simp
    then show ?thesis
      using that bot part
      by (simp add: job_news_eq breaking_news_eq news_outcome_dicts outbound_send
          outbound_send_message news_message_def rendered_items_def)
  qed
  have c: "outbound (snd (job_news cfg w)) = [] \<and> outbound (snd (breaking_news cfg w)) = []"
    if "data = JList items" "\<not> list_all is_dict (take 4 items)" for items
    using that bot part by (simp add: job_news_eq breaking_news_eq news_outcome_not_dicts)
  show ?thesis using r a b c by blast
qed


text \<open>
  Six items, the second without a headline: the digest holds the first, third and fourth.
\<close>

theorem news_digest_renders_at_most_four_witness:
  "http (sample_world (Reply 200 (Returned (JList six_items))) None) (news_request sample_config (Some 10))
     = Reply 200 (Returned (JList six_items))
   \<and> http (sample_world (Reply 200 (Returned (JList six_items))) None) (news_request sample_config None)
     = Reply 200 (Returned (JList six_items))
   \<and> outbound (snd (job_news sample_config (sample_world (Reply 200 (Returned (JList six_items))) None)))
     = [news_header
        @ glyph_bullet @ '' A'' @ [CHR 0x0A] @ ''  _'' @ glyph_dash @ '' S1_'' @ [CHR 0x0A, CHR 0x0A]
        @ glyph_bullet @ '' C'' @ [CHR 0x0A] @ ''  _'' @ glyph_dash @ '' S3_'' @ [CHR 0x0A, CHR 0x0A]
        @ glyph_bullet @ '' D'' @ [CHR 0x0A] @ ''  _'' @ glyph_dash @ '' S4_'' @ [CHR 0x0A, CHR 0x0A]]
   \<and> outbound (snd (breaking_news sample_config (sample_world (Reply 200 (Returned (JList six_items))) None)))
     = [news_header
        @ glyph_bullet @ '' A'' @ [CHR 0x0A] @ ''  _'' @ glyph_dash @ '' S1_'' @ [CHR 0x0A, CHR 0x0A]
        @ glyph_bullet @ '' C'' @ [CHR 0x0A] @ ''  _'' @ glyph_dash @ '' S3_'' @ [CHR 0x0A, CHR 0x0A]
        @ glyph_bullet @ '' D'' @ [CHR 0x0A] @ ''  _'' @ glyph_dash @ '' S4_'' @ [CHR 0x0A, CHR 0x0A]]"
proof -
  let ?w = "sample_world (Reply 200 (Returned (JList six_items))) None"
  have h1: "http ?w (news_request sample_config (Some 10)) = Reply 200 (Returned (JList six_items))"
    by (simp add: sample_world_def)
  have h2: "http ?w (news_request sample_config None) = Reply 200 (Returned (JList six_items))"
    by (simp add: sample_world_def)
  have d: "six_items \<noteq> [] \<and> list_all is_dict (take 4 six_items)"
    by (simp add: six_items_def)
  have f: "filter has_headline (take 4 six_items)
     = [JObj [(''headline'', JStr ''A''), (''source'', JStr ''S1'')],
        JObj [(''headline'', JStr ''C''), (''source'', JStr ''S3'')],
        JObj [(''headline'', JStr ''D''), (''source'', JStr ''S4'')]]"
    by (simp add: six_items_def has_headline_def item_field_def)
  show ?thesis
    using news_digest_renders_at_most_four [OF h1 h2] d h1 h2
    by (simp add: f item_entry_def item_field_def news_entry_def py_format_def)
qed


text \<open>
  C10. When the news response is a non-empty list in which every item has an empty headline,
  both variants still send a message, and it is the header alone: the decision to send is
  taken on the fetched list, before the items without a headline are left out.
\<close>

theorem blank_headlines_still_send_header:
  assumes bot: "http w (news_request cfg (Some 10)) = Reply st (Returned (JList items))"
    and part: "http w (news_request cfg None) = Reply st' (Returned (JList items))"
    and nonempty: "items \<noteq> []"
    and blank: "list_all (\<lambda>item. is_dict item \<and> \<not> has_headline item) items"
  shows "outbound (snd (job_news cfg w)) = [news_header]
       \<and> outbound (snd (breaking_news cfg w)) = [news_header]"
proof -
  from blank have all: "\<forall>item \<in> set items. is_dict item \<and> \<not> has_headline item"
    by (simp add: list_all_iff)
  have sub: "set (take 4 items) \<subseteq> set items" by (rule set_take_subset)
  have dicts: "list_all is_dict (take 4 items)"
    using all sub by (auto simp add: list_all_iff)
  have none: "filter has_headline (take 4 items) = []"
    using all sub by (auto simp add: filter_empty_conv)
  have msg: "news_message w items = news_header"
    by (simp add: news_message_def rendered_items_def none)
  show ?thesis
    using bot part nonempty dicts
    by (simp add: job_news_eq breaking_news_eq news_outcome_dicts outbound_send
        outbound_send_message msg)
qed


text \<open>Two items, one with an empty headline and one with none.\<close>

theorem blank_headlines_still_send_header_witness:
  "http (sample_world (Reply 200 (Returned (JList blank_items))) None) (news_request sample_config (Some 10))
     = Reply 200 (Returned (JList blank_items))
   \<and> http (sample_world (Reply 200 (Returned (JList blank_items))) None) (news_request sample_config None)
     = Reply 200 (Returned (JList blank_items))
   \<and> blank_items \<noteq> []
   \<and> list_all (\<lambda>item. is_dict item \<and> \<not> has_headline item) blank_items
   \<and> outbound (snd (job_news sample_config (sample_world (Reply 200 (Returned (JList blank_items))) None)))
     = [news_header]
   \<and> outbound (snd (breaking_news sample_config (sample_world (Reply 200 (Returned (JList blank_items))) None)))
     = [news_header]"
proof -
  let ?w = "sample_world (Reply 200 (Returned (JList blank_items))) None"
  have h1: "http ?w (news_request sample_config (Some 10)) = Reply 200 (Returned (JList blank_items))"
    by (simp add: sample_world_def)
  have h2: "http ?w (news_request sample_config None) = Reply 200 (Returned (JList blank_items))"
    by (simp add: sample_world_def)
  have h3: "blank_items \<noteq> []"
    by (simp add: blank_items_def)
  have h4: "list_all (\<lambda>item. is_dict item \<and> \<not> has_headline item) blank_items"
    by (simp add: blank_items_def has_headline_def item_field_def)
  show ?thesis
    using blank_headlines_still_send_header [OF h1 h2 h3 h4] h1 h2 h3 h4 by simp
qed


end
